theory Spec2Isabelle
  imports Complex_Main "HOL-Library.Product_Lexorder"
begin

section \<open>CAP alerts loader: \<^verbatim>\<open>msc_pygeoapi/loader/cap_alerts.py\<close>\<close>

text \<open>
  A shallow embedding of \<^verbatim>\<open>CapAlertsRealtimeLoader\<close>: the date helper
  \<^verbatim>\<open>_get_date_format\<close>, the element helper \<^verbatim>\<open>_get_element\<close> and the
  transformation \<^verbatim>\<open>weather_warning2geojson\<close>.  Python exceptions are values of
  \<open>py_error\<close>; a function that can raise returns \<open>py_error + 'a\<close>.
  Strings are lists of 8-bit characters, so the model covers ASCII text: \<^verbatim>\<open>\d\<close> is an
  ASCII digit and \<^verbatim>\<open>strip()\<close> removes ASCII white space.
\<close>

datatype py_error =
  TypeError | ValueError | AttributeError | KeyError | IndexError | UnboundLocalError | SyntaxError

subsection \<open>String builtins\<close>

text \<open>\<^verbatim>\<open>old in s\<close> for strings: \<open>old\<close> occurs as a contiguous substring.\<close>

fun str_contains :: "string \<Rightarrow> string \<Rightarrow> bool" where
  "str_contains old [] = (old = [])"
| "str_contains old (c # s) = (take (length old) (c # s) = old \<or> str_contains old s)"

text \<open>
  \<^verbatim>\<open>s.replace(old, new)\<close>: every non-overlapping occurrence, scanning from the left.
  For an empty \<open>old\<close> Python puts \<open>new\<close> before every character and at the end.
\<close>

fun replace_from :: "nat \<Rightarrow> string \<Rightarrow> string \<Rightarrow> string \<Rightarrow> string" where
  "replace_from skip old new [] = []"
| "replace_from (Suc k) old new (c # s) = replace_from k old new s"
| "replace_from 0 old new (c # s) =
     (if take (length old) (c # s) = old
      then new @ replace_from (length old - 1) old new s
      else c # replace_from 0 old new s)"

definition str_replace :: "string \<Rightarrow> string \<Rightarrow> string \<Rightarrow> string" where
  "str_replace old new s =
     (if old = [] then new @ concat (map (\<lambda>c. c # new) s)
      else replace_from 0 old new s)"

text \<open>\<^verbatim>\<open>s.split(',')\<close> and \<^verbatim>\<open>re.split(' |,', s)\<close>: split at every separator character;
  empty pieces are kept, and the result is never empty.\<close>

fun split_at :: "(char \<Rightarrow> bool) \<Rightarrow> string \<Rightarrow> string list" where
  "split_at sep [] = [[]]"
| "split_at sep (c # s) =
     (if sep c then [] # split_at sep s
      else (case split_at sep s of
              [] \<Rightarrow> [[c]]
            | piece # pieces \<Rightarrow> (c # piece) # pieces))"

definition is_space :: "char \<Rightarrow> bool" where
  "is_space c = (c \<in> set [CHR '' '', CHR 0x09, CHR 0x0A, CHR 0x0B, CHR 0x0C, CHR 0x0D,
                           CHR 0x1C, CHR 0x1D, CHR 0x1E, CHR 0x1F])"

definition strip :: "string \<Rightarrow> string" where
  "strip s = rev (dropWhile is_space (rev (dropWhile is_space s)))"

text \<open>\<^verbatim>\<open>xs[i]\<close> on a list, with Python's negative indices and its IndexError.\<close>

definition getitem :: "'a list \<Rightarrow> int \<Rightarrow> py_error + 'a" where
  "getitem xs i =
     (if 0 \<le> i \<and> i < int (length xs) then Inr (xs ! nat i)
      else if i < 0 \<and> - int (length xs) \<le> i then Inr (xs ! nat (int (length xs) + i))
      else Inl IndexError)"

subsection \<open>Regular expressions of \<^verbatim>\<open>_strptime\<close>\<close>

text \<open>
  \<^verbatim>\<open>datetime.strptime\<close> turns each directive of the format into a group of the
  regular expression below (CPython, \<^verbatim>\<open>_strptime.TimeRE\<close>), matches the format's
  expression at the start of the string with \<^verbatim>\<open>re.match\<close> and fails when characters
  remain.  A character class is a range \<open>(lo, hi)\<close>; an alternative is a sequence of
  classes; a group lists its alternatives in the order the expression tries them.
\<close>

type_synonym char_class = "char \<times> char"

definition in_class :: "char \<Rightarrow> char_class \<Rightarrow> bool" where
  "in_class c cl = ((of_char (fst cl) :: nat) \<le> of_char c \<and> (of_char c :: nat) \<le> of_char (snd cl))"

fun match_seq :: "char_class list \<Rightarrow> string \<Rightarrow> (string \<times> string) option" where
  "match_seq [] s = Some ([], s)"
| "match_seq (cl # cls) [] = None"
| "match_seq (cl # cls) (c # s) =
     (if in_class c cl
      then (case match_seq cls s of None \<Rightarrow> None | Some (m, r) \<Rightarrow> Some (c # m, r))
      else None)"

definition match_alts :: "char_class list list \<Rightarrow> string \<Rightarrow> (string \<times> string) list" where
  "match_alts alts s =
     concat (map (\<lambda>a. case match_seq a s of None \<Rightarrow> [] | Some mr \<Rightarrow> [mr]) alts)"

text \<open>All ways to match the groups one after the other, in backtracking order: the head
  of the list is the match \<^verbatim>\<open>re.match\<close> returns.\<close>

fun match_groups :: "char_class list list list \<Rightarrow> string \<Rightarrow> (string list \<times> string) list" where
  "match_groups [] s = [([], s)]"
| "match_groups (g # gs) s =
     concat (map (\<lambda>(m, r). map (\<lambda>(ms, r'). (m # ms, r')) (match_groups gs r))
                 (match_alts g s))"

definition re_match :: "char_class list list list \<Rightarrow> string \<Rightarrow> (string list \<times> string) option" where
  "re_match gs s = (case match_groups gs s of [] \<Rightarrow> None | x # _ \<Rightarrow> Some x)"

abbreviation digit_class :: char_class where
  "digit_class \<equiv> (CHR ''0'', CHR ''9'')"

abbreviation lit :: "char \<Rightarrow> char_class" where
  "lit c \<equiv> (c, c)"

text \<open>\<^verbatim>\<open>'Y': (?P<Y>\d\d\d\d)\<close>\<close>
definition re_Y :: "char_class list list" where
  "re_Y = [[digit_class, digit_class, digit_class, digit_class]]"

text \<open>\<^verbatim>\<open>'m': (?P<m>1[0-2]|0[1-9]|[1-9])\<close>\<close>
definition re_m :: "char_class list list" where
  "re_m = [[lit CHR ''1'', (CHR ''0'', CHR ''2'')],
           [lit CHR ''0'', (CHR ''1'', CHR ''9'')],
           [(CHR ''1'', CHR ''9'')]]"

text \<open>\<^verbatim>\<open>'d': (?P<d>3[0-1]|[1-2]\d|0[1-9]|[1-9]| [1-9])\<close>\<close>
definition re_d :: "char_class list list" where
  "re_d = [[lit CHR ''3'', (CHR ''0'', CHR ''1'')],
           [(CHR ''1'', CHR ''2''), digit_class],
           [lit CHR ''0'', (CHR ''1'', CHR ''9'')],
           [(CHR ''1'', CHR ''9'')],
           [lit CHR '' '', (CHR ''1'', CHR ''9'')]]"

text \<open>\<^verbatim>\<open>'H': (?P<H>2[0-3]|[0-1]\d|\d)\<close>\<close>
definition re_H :: "char_class list list" where
  "re_H = [[lit CHR ''2'', (CHR ''0'', CHR ''3'')],
           [(CHR ''0'', CHR ''1''), digit_class],
           [digit_class]]"

text \<open>\<^verbatim>\<open>'M': (?P<M>[0-5]\d|\d)\<close>\<close>
definition re_M :: "char_class list list" where
  "re_M = [[(CHR ''0'', CHR ''5''), digit_class], [digit_class]]"

text \<open>\<^verbatim>\<open>'S': (?P<S>6[0-1]|[0-5]\d|\d)\<close>\<close>
definition re_S :: "char_class list list" where
  "re_S = [[lit CHR ''6'', (CHR ''0'', CHR ''1'')],
           [(CHR ''0'', CHR ''5''), digit_class],
           [digit_class]]"

text \<open>\<^verbatim>\<open>int(group)\<close> on a matched group: decimal digits, after leading blanks.\<close>

definition digit_val :: "char \<Rightarrow> nat" where
  "digit_val c = of_char c - 48"

definition int_of_group :: "string \<Rightarrow> nat" where
  "int_of_group s = foldl (\<lambda>a c. 10 * a + digit_val c) 0 (dropWhile (\<lambda>c. c = CHR '' '') s)"

subsection \<open>Naive datetimes\<close>

record datetime =
  year :: nat
  month :: nat
  day :: nat
  hour :: nat
  minute :: nat
  second :: nat
  microsecond :: nat

definition is_leap :: "nat \<Rightarrow> bool" where
  "is_leap y = (y mod 4 = 0 \<and> (y mod 100 \<noteq> 0 \<or> y mod 400 = 0))"

definition days_in_month :: "nat \<Rightarrow> nat \<Rightarrow> nat" where
  "days_in_month y m =
     (if m = 2 then (if is_leap y then 29 else 28)
      else if m \<in> set [4, 6, 9, 11] then 30 else 31)"

text \<open>The range checks of the \<^verbatim>\<open>datetime\<close> constructor (each failure is a ValueError).\<close>

definition valid_datetime :: "datetime \<Rightarrow> bool" where
  "valid_datetime d =
     (1 \<le> year d \<and> year d \<le> 9999 \<and> 1 \<le> month d \<and> month d \<le> 12 \<and>
      1 \<le> day d \<and> day d \<le> days_in_month (year d) (month d) \<and>
      hour d \<le> 23 \<and> minute d \<le> 59 \<and> second d \<le> 59 \<and> microsecond d \<le> 999999)"

text \<open>Comparison of naive datetimes is lexicographic on the fields.\<close>

definition dt_key :: "datetime \<Rightarrow> nat \<times> nat \<times> nat \<times> nat \<times> nat \<times> nat \<times> nat" where
  "dt_key d = (year d, month d, day d, hour d, minute d, second d, microsecond d)"

definition dt_less :: "datetime \<Rightarrow> datetime \<Rightarrow> bool" where
  "dt_less a b = (dt_key a < dt_key b)"

definition dt_le :: "datetime \<Rightarrow> datetime \<Rightarrow> bool" where
  "dt_le a b = (dt_key a \<le> dt_key b)"

text \<open>\<^verbatim>\<open>datetime.strptime(date, "%Y%m%d%H%M%S")\<close>\<close>

definition strptime :: "string \<Rightarrow> py_error + datetime" where
  "strptime s =
     (case re_match [re_Y, re_m, re_d, re_H, re_M, re_S] s of
        None \<Rightarrow> Inl ValueError
      | Some (groups, rest) \<Rightarrow>
          if rest \<noteq> [] then Inl ValueError
          else (case groups of
                  [gY, gm, gd, gH, gM, gS] \<Rightarrow>
                    (let d = \<lparr>year = int_of_group gY, month = int_of_group gm,
                              day = int_of_group gd, hour = int_of_group gH,
                              minute = int_of_group gM, second = int_of_group gS,
                              microsecond = 0\<rparr>
                     in if valid_datetime d then Inr d else Inl ValueError)
                | _ \<Rightarrow> Inl ValueError))"

text \<open>
  \<^verbatim>\<open>d.strftime('%Y-%m-%dT%H:%M:%SZ')\<close>.  CPython hands the format to the C library:
  the two-digit fields are zero-padded, but glibc writes \<^verbatim>\<open>%Y\<close> without padding, so a
  year below 1000 has fewer than four digits (\<^verbatim>\<open>999-01-02T03:04:05Z\<close>).
\<close>

definition digit_char :: "nat \<Rightarrow> char" where
  "digit_char k = char_of (48 + k mod 10)"

definition digits2 :: "nat \<Rightarrow> string" where
  "digits2 n = [digit_char (n div 10), digit_char n]"

definition digits4 :: "nat \<Rightarrow> string" where
  "digits4 n = [digit_char (n div 1000), digit_char (n div 100), digit_char (n div 10), digit_char n]"

definition year_digits :: "nat \<Rightarrow> string" where
  "year_digits y =
     (if y < 10 then [digit_char y]
      else if y < 100 then digits2 y
      else if y < 1000 then digit_char (y div 100) # digits2 y
      else digits4 y)"

definition strftime :: "datetime \<Rightarrow> string" where
  "strftime d =
     year_digits (year d) @ ''-'' @ digits2 (month d) @ ''-'' @ digits2 (day d) @ ''T'' @
     digits2 (hour d) @ '':'' @ digits2 (minute d) @ '':'' @ digits2 (second d) @ ''Z''"

text \<open>
  \<^verbatim>\<open>_get_date_format(self, date)\<close>.  The argument comes from \<^verbatim>\<open>_get_element\<close> and
  may be \<^verbatim>\<open>None\<close>, on which \<^verbatim>\<open>char in date\<close> raises TypeError.
\<close>

definition get_date_format :: "string option \<Rightarrow> py_error + datetime" where
  "get_date_format date0 =
     (case date0 of
        None \<Rightarrow> Inl TypeError
      | Some date \<Rightarrow>
          (let date = foldl (\<lambda>date char. if str_contains char date
                                           then str_replace char [] date else date)
                            date [''T'', ''-'', '':''];
               date = take 14 date
           in strptime date))"

subsection \<open>Element trees (\<^verbatim>\<open>lxml.etree\<close>)\<close>

text \<open>
  The document is the element tree \<^verbatim>\<open>etree.parse\<close> returns.  An element has its
  qualified tag (\<^verbatim>\<open>{namespace}local\<close>), its attributes, its text (\<^verbatim>\<open>None\<close> when
  there is none) and its child elements in document order.
\<close>

datatype element =
  Element (el_tag: string) (el_attrib: "(string \<times> string) list")
          (el_text: "string option") (el_children: "element list")

text \<open>\<^verbatim>\<open>node.iter(tag)\<close>: the node and its descendants with that tag, in document order.\<close>

fun iter_all :: "element \<Rightarrow> element list" where
  "iter_all (Element t a x cs) = Element t a x cs # concat (map iter_all cs)"

definition iter_tag :: "string \<Rightarrow> element \<Rightarrow> element list" where
  "iter_tag t node = filter (\<lambda>e. el_tag e = t) (iter_all node)"

definition iterchildren :: "string \<Rightarrow> element \<Rightarrow> element list" where
  "iterchildren t node = filter (\<lambda>e. el_tag e = t) (el_children node)"

text \<open>
  \<^verbatim>\<open>node.find(path)\<close> for paths made of the steps \<^verbatim>\<open>tag\<close>, \<^verbatim>\<open>tag[n]\<close> and
  \<^verbatim>\<open>tag[last()-k]\<close> separated by \<^verbatim>\<open>/\<close>.  The path is compiled first: a position
  \<^verbatim>\<open>[0]\<close> is refused with SyntaxError (positions count from 1).  Then a step selects,
  for every element reached so far, its children with the tag; a position keeps the child
  that stands at that index among them (\<^verbatim>\<open>elems[n - 1]\<close>, \<^verbatim>\<open>elems[-k - 1]\<close>).
  \<^verbatim>\<open>find\<close> returns the first element selected, or \<^verbatim>\<open>None\<close>.
\<close>

datatype position = Index nat | Last_minus nat

fun position_index :: "position \<Rightarrow> int" where
  "position_index (Index n) = int n - 1"
| "position_index (Last_minus k) = - int k - 1"

type_synonym step = "string \<times> position option"

fun step_ok :: "step \<Rightarrow> bool" where
  "step_ok (t, Some (Index n)) = (1 \<le> n)"
| "step_ok (t, Some (Last_minus k)) = True"
| "step_ok (t, None) = True"

fun select_step :: "step \<Rightarrow> element list \<Rightarrow> element list" where
  "select_step (t, None) result = concat (map (iterchildren t) result)"
| "select_step (t, Some p) result =
     concat (map (\<lambda>parent. case getitem (iterchildren t parent) (position_index p) of
                               Inl _ \<Rightarrow> [] | Inr e \<Rightarrow> [e]) result)"

definition iterfind :: "element \<Rightarrow> step list \<Rightarrow> py_error + element list" where
  "iterfind node path =
     (if list_all step_ok path
      then Inr (foldl (\<lambda>result st. select_step st result) [node] path)
      else Inl SyntaxError)"

definition find_path :: "element \<Rightarrow> step list \<Rightarrow> py_error + element option" where
  "find_path node path =
     (case iterfind node path of
        Inl e \<Rightarrow> Inl e
      | Inr [] \<Rightarrow> Inr None
      | Inr (e # _) \<Rightarrow> Inr (Some e))"

text \<open>\<^verbatim>\<open>_get_element(self, node, path, attrib=None)\<close>\<close>

definition get_element ::
  "element \<Rightarrow> step list \<Rightarrow> string option \<Rightarrow> py_error + string option" where
  "get_element node path attrib =
     (case find_path node path of
        Inl e \<Rightarrow> Inl e
      | Inr val \<Rightarrow>
          if attrib \<noteq> None \<and> val \<noteq> None then Inr (map_of (el_attrib (the val)) (the attrib))
          else if val \<noteq> None \<and> el_text (the val) \<notin> set [None, Some []]
               then Inr (el_text (the val))
          else Inr None)"

subsection \<open>The alert dictionaries\<close>

text \<open>A \<^verbatim>\<open>dict\<close> keeps insertion order: an association list with distinct keys.\<close>

definition dict_contains :: "'k \<Rightarrow> ('k \<times> 'v) list \<Rightarrow> bool" where
  "dict_contains k d = (k \<in> set (map fst d))"

definition dict_get :: "('k \<times> 'v) list \<Rightarrow> 'k \<Rightarrow> py_error + 'v" where
  "dict_get d k = (case map_of d k of None \<Rightarrow> Inl KeyError | Some v \<Rightarrow> Inr v)"

definition dict_del :: "'k \<Rightarrow> ('k \<times> 'v) list \<Rightarrow> py_error + ('k \<times> 'v) list" where
  "dict_del k d =
     (if dict_contains k d then Inr (filter (\<lambda>kv. fst kv \<noteq> k) d) else Inl KeyError)"

text \<open>The tuple stored in \<^verbatim>\<open>french_alert\<close>: \<^verbatim>\<open>(id_warning, name, headline, descript)\<close>.\<close>

record french_record =
  fr_id_warning :: string
  fr_name :: "string option"
  fr_headline :: "string option"
  fr_descript :: string

text \<open>The tuple stored in \<^verbatim>\<open>english_alert\<close>: \<^verbatim>\<open>(split_tag, name, headline, effective,
  expires, warning, status_alert, id_warning, descript, url)\<close>.\<close>

record english_record =
  en_split_tag :: "string list"
  en_name :: "string option"
  en_headline :: "string option"
  en_effective :: string
  en_expires :: string
  en_warning :: "string option"
  en_status_alert :: "string option"
  en_id_warning :: string
  en_descript :: string
  en_url :: string

record loader_state =
  french_alert :: "(string \<times> french_record) list"
  english_alert :: "(string \<times> english_record) list"
  list_id :: "string list"

definition base_xml :: string where
  "base_xml = ''{urn:oasis:names:tc:emergency:cap:1.2}''"

text \<open>\<^verbatim>\<open>'{}name'.format(base_xml)\<close>\<close>

definition cap :: "string \<Rightarrow> step" where
  "cap name = (base_xml @ name, None)"

text \<open>\<^verbatim>\<open>'a-{}'.format(re.sub('[-, .]', '', tag)[:25])\<close>\<close>

definition id_warning_of :: "string \<Rightarrow> string" where
  "id_warning_of tag = ''a-'' @ take 25 (filter (\<lambda>c. c \<notin> set ''-, .'') tag)"

text \<open>\<^verbatim>\<open>re.split(' |,', tag)\<close>\<close>

definition split_tag_of :: "string \<Rightarrow> string list" where
  "split_tag_of tag = split_at (\<lambda>c. c = CHR '' '' \<or> c = CHR '','') tag"

text \<open>\<^verbatim>\<open>_get_element(grandchild, description).replace("\n", " ").strip()\<close>: the method call
  on \<^verbatim>\<open>None\<close> raises AttributeError.\<close>

definition descript_of :: "element \<Rightarrow> py_error + string" where
  "descript_of grandchild =
     (case get_element grandchild [cap ''description''] None of
        Inl e \<Rightarrow> Inl e
      | Inr None \<Rightarrow> Inl AttributeError
      | Inr (Some s) \<Rightarrow> Inr (strip (str_replace [CHR 0x0A] '' '' s)))"

text \<open>The loop over the \<^verbatim>\<open>area\<close> elements of a French \<^verbatim>\<open>info\<close> block.\<close>

fun french_areas ::
  "string option \<Rightarrow> string \<Rightarrow> (string \<times> french_record) list \<Rightarrow> element list \<Rightarrow>
   py_error + (string \<times> french_record) list" where
  "french_areas headline descript fr [] = Inr fr"
| "french_areas headline descript fr (i # areas) =
     (case get_element i [cap ''polygon''] None of
        Inl e \<Rightarrow> Inl e
      | Inr tag \<Rightarrow>
     (case get_element i [cap ''areaDesc''] None of
        Inl e \<Rightarrow> Inl e
      | Inr name \<Rightarrow>
     (case tag of
        None \<Rightarrow> Inl TypeError
      | Some tag \<Rightarrow>
          (let id_warning = id_warning_of tag
           in french_areas headline descript
                (if \<not> dict_contains id_warning fr
                 then fr @ [(id_warning, \<lparr>fr_id_warning = id_warning, fr_name = name,
                                           fr_headline = headline, fr_descript = descript\<rparr>)]
                 else fr)
                areas))))"

text \<open>The loop over the \<^verbatim>\<open>area\<close> elements of an \<^verbatim>\<open>info\<close> block in another language.\<close>

fun english_areas ::
  "string option \<Rightarrow> string \<Rightarrow> string \<Rightarrow> string \<Rightarrow> string option \<Rightarrow> string option \<Rightarrow> string \<Rightarrow>
   (string \<times> english_record) list \<Rightarrow> element list \<Rightarrow>
   py_error + (string \<times> english_record) list" where
  "english_areas headline descript effective expires warning status_alert url en [] = Inr en"
| "english_areas headline descript effective expires warning status_alert url en (i # areas) =
     (case get_element i [cap ''polygon''] None of
        Inl e \<Rightarrow> Inl e
      | Inr tag \<Rightarrow>
     (case get_element i [cap ''areaDesc''] None of
        Inl e \<Rightarrow> Inl e
      | Inr name \<Rightarrow>
     (case tag of
        None \<Rightarrow> Inl TypeError
      | Some tag \<Rightarrow>
          (let split_tag = split_tag_of tag;
               id_warning = id_warning_of tag
           in english_areas headline descript effective expires warning status_alert url
                (if \<not> dict_contains id_warning en
                 then en @ [(id_warning,
                             \<lparr>en_split_tag = split_tag, en_name = name, en_headline = headline,
                              en_effective = effective, en_expires = expires,
                              en_warning = warning, en_status_alert = status_alert,
                              en_id_warning = id_warning, en_descript = descript,
                              en_url = url\<rparr>)]
                 else en)
                areas))))"

text \<open>\<^verbatim>\<open>identifier not in list_id\<close>: \<^verbatim>\<open>list_id\<close> holds strings, \<^verbatim>\<open>identifier\<close> may be
  \<^verbatim>\<open>None\<close>.\<close>

definition not_in_list :: "string option \<Rightarrow> string list \<Rightarrow> bool" where
  "not_in_list identifier ids = (case identifier of None \<Rightarrow> True | Some i \<Rightarrow> i \<notin> set ids)"

text \<open>\<^verbatim>\<open>_get_date_format(_get_element(node, path))\<close>\<close>

definition date_of :: "element \<Rightarrow> step list \<Rightarrow> py_error + datetime" where
  "date_of node path =
     (case get_element node path None of
        Inl e \<Rightarrow> Inl e
      | Inr date \<Rightarrow> get_date_format date)"

text \<open>The branch of the loop body for a French \<^verbatim>\<open>info\<close> block.\<close>

definition french_info :: "loader_state \<Rightarrow> element \<Rightarrow> py_error + loader_state" where
  "french_info st grandchild =
     (case get_element grandchild [cap ''headline''] None of
        Inl e \<Rightarrow> Inl e
      | Inr headline \<Rightarrow>
     (case descript_of grandchild of
        Inl e \<Rightarrow> Inl e
      | Inr descript \<Rightarrow>
     (case french_areas headline descript (french_alert st)
             (iter_tag (base_xml @ ''area'') grandchild) of
        Inl e \<Rightarrow> Inl e
      | Inr fr \<Rightarrow> Inr (st\<lparr>french_alert := fr\<rparr>))))"

text \<open>The branch of the loop body for an \<^verbatim>\<open>info\<close> block in another language.\<close>

definition english_info ::
  "string \<Rightarrow> string \<Rightarrow> string option \<Rightarrow> loader_state \<Rightarrow> element \<Rightarrow> py_error + loader_state" where
  "english_info url expires status_alert st grandchild =
     (case get_element grandchild [cap ''headline''] None of
        Inl e \<Rightarrow> Inl e
      | Inr headline \<Rightarrow>
     (case descript_of grandchild of
        Inl e \<Rightarrow> Inl e
      | Inr descript \<Rightarrow>
     (case date_of grandchild [cap ''effective''] of
        Inl e \<Rightarrow> Inl e
      | Inr effective_dt \<Rightarrow>
     (let effective = strftime effective_dt
      in case get_element grandchild
                [(base_xml @ ''parameter'', Some (Index 1)), cap ''value''] None of
           Inl e \<Rightarrow> Inl e
         | Inr warning \<Rightarrow>
     (case english_areas headline descript effective expires warning status_alert url
             (english_alert st) (iter_tag (base_xml @ ''area'') grandchild) of
        Inl e \<Rightarrow> Inl e
      | Inr en \<Rightarrow> Inr (st\<lparr>english_alert := en\<rparr>))))))"

text \<open>The body of the loop over the \<^verbatim>\<open>info\<close> elements.\<close>

definition info_step ::
  "datetime \<Rightarrow> string \<Rightarrow> string option \<Rightarrow> string \<Rightarrow> loader_state \<Rightarrow> element \<Rightarrow>
   py_error + loader_state" where
  "info_step now url identifier lastref st grandchild =
     (case date_of grandchild [cap ''expires''] of
        Inl e \<Rightarrow> Inl e
      | Inr expires_dt \<Rightarrow>
     (let expires = strftime expires_dt
      in case get_element grandchild
                [(base_xml @ ''parameter'', Some (Last_minus 4)), cap ''value''] None of
           Inl e \<Rightarrow> Inl e
         | Inr status_alert \<Rightarrow>
     (case get_date_format (Some expires) of
        Inl e \<Rightarrow> Inl e
      | Inr expires_again \<Rightarrow>
          if dt_less now expires_again \<or> not_in_list identifier (list_id st) then
            (let st = st\<lparr>list_id := list_id st @ [lastref]\<rparr>
             in case get_element grandchild [cap ''language''] None of
                  Inl e \<Rightarrow> Inl e
                | Inr language \<Rightarrow>
                    if language = Some ''fr-CA'' then french_info st grandchild
                    else english_info url expires status_alert st grandchild)
          else Inr st)))"

fun info_loop ::
  "datetime \<Rightarrow> string \<Rightarrow> string option \<Rightarrow> string \<Rightarrow> loader_state \<Rightarrow> element list \<Rightarrow>
   py_error + loader_state" where
  "info_loop now url identifier lastref st [] = Inr st"
| "info_loop now url identifier lastref st (grandchild # rest) =
     (case info_step now url identifier lastref st grandchild of
        Inl e \<Rightarrow> Inl e
      | Inr st' \<Rightarrow> info_loop now url identifier lastref st' rest)"

subsection \<open>Expiry filter\<close>

text \<open>The loop that collects \<^verbatim>\<open>english_alert_remove\<close>.\<close>

fun expired_keys ::
  "datetime \<Rightarrow> (string \<times> english_record) list \<Rightarrow> string list \<Rightarrow> py_error + string list" where
  "expired_keys now [] english_alert_remove = Inr english_alert_remove"
| "expired_keys now ((j, r) # rest) english_alert_remove =
     (case get_date_format (Some (en_expires r)) of
        Inl e \<Rightarrow> Inl e
      | Inr d \<Rightarrow>
          expired_keys now rest
            (if dt_less d now then english_alert_remove @ [j] else english_alert_remove))"

text \<open>The loop that deletes every collected key from both dictionaries.\<close>

fun remove_keys ::
  "string list \<Rightarrow> (string \<times> english_record) list \<Rightarrow> (string \<times> french_record) list \<Rightarrow>
   py_error + (string \<times> english_record) list \<times> (string \<times> french_record) list" where
  "remove_keys [] en fr = Inr (en, fr)"
| "remove_keys (key # keys) en fr =
     (case dict_del key en of
        Inl e \<Rightarrow> Inl e
      | Inr en' \<Rightarrow>
          (case dict_del key fr of
             Inl e \<Rightarrow> Inl e
           | Inr fr' \<Rightarrow> remove_keys keys en' fr'))"

subsection \<open>Polygon builder and feature assembly\<close>

text \<open>
  Coordinates are the values \<^verbatim>\<open>float(token)\<close> returns.  The builtin is a parameter
  \<open>float_of\<close> of the model (its ValueError included); a coordinate is a rational number.
\<close>

type_synonym point = "rat list"

text \<open>\<^verbatim>\<open>list(reversed(range(0, n, 2)))\<close>\<close>

definition reversed_range2 :: "nat \<Rightarrow> nat list" where
  "reversed_range2 n = rev (filter even [0..<n])"

text \<open>The loop over \<^verbatim>\<open>l\<close> that fills \<^verbatim>\<open>poly\<close>; the token at \<^verbatim>\<open>l + 1\<close> is read and
  converted first.\<close>

fun poly_loop ::
  "(string \<Rightarrow> py_error + rat) \<Rightarrow> string list \<Rightarrow> nat list \<Rightarrow> point list \<Rightarrow>
   py_error + point list" where
  "poly_loop float_of tokens [] poly = Inr poly"
| "poly_loop float_of tokens (l # ls) poly =
     (if length tokens > 1 then
        (case getitem tokens (int l + 1) of
           Inl e \<Rightarrow> Inl e
         | Inr t1 \<Rightarrow>
        (case float_of t1 of
           Inl e \<Rightarrow> Inl e
         | Inr lon \<Rightarrow>
        (case getitem tokens (int l) of
           Inl e \<Rightarrow> Inl e
         | Inr t0 \<Rightarrow>
        (case float_of t0 of
           Inl e \<Rightarrow> Inl e
         | Inr lat \<Rightarrow> poly_loop float_of tokens ls (poly @ [[lon, lat, 0]])))))
      else poly_loop float_of tokens ls poly)"

text \<open>The loop that fills \<^verbatim>\<open>no_dup_poly\<close>.\<close>

fun no_dup_loop :: "point list \<Rightarrow> point list \<Rightarrow> point list" where
  "no_dup_loop [] no_dup_poly = no_dup_poly"
| "no_dup_loop (k # ks) no_dup_poly =
     no_dup_loop ks (if k \<notin> set no_dup_poly then no_dup_poly @ [k] else no_dup_poly)"

text \<open>The ring of one record: \<^verbatim>\<open>poly\<close>, then \<^verbatim>\<open>no_dup_poly\<close> with \<^verbatim>\<open>poly[-1]\<close>
  appended.\<close>

definition build_ring :: "(string \<Rightarrow> py_error + rat) \<Rightarrow> string list \<Rightarrow> py_error + point list" where
  "build_ring float_of tokens =
     (case poly_loop float_of tokens (reversed_range2 (length tokens)) [] of
        Inl e \<Rightarrow> Inl e
      | Inr poly \<Rightarrow>
          (let no_dup_poly = no_dup_loop poly []
           in case getitem poly (- 1) of
                Inl e \<Rightarrow> Inl e
              | Inr closing \<Rightarrow> Inr (no_dup_poly @ [closing])))"

record feature_properties =
  p_identifier :: string
  p_area :: "string option"
  p_reference :: "string option"
  p_zone :: "string option"
  p_headline :: "string option"
  p_titre :: "string option"
  p_descrip_en :: string
  p_descrip_fr :: string
  p_effective :: string
  p_expires :: string
  p_alert_type :: "string option"
  p_status :: "string option"
  p_url :: string

record geometry =
  g_type :: string
  g_coordinates :: "point list list"

record feature =
  f_type :: string
  f_properties :: feature_properties
  f_geometry :: geometry

text \<open>The body of the loop over \<^verbatim>\<open>num_poly\<close>: the dictionary \<^verbatim>\<open>AlertLocation\<close>.\<close>

definition alert_location ::
  "(string \<Rightarrow> py_error + rat) \<Rightarrow> string option \<Rightarrow> (string \<times> french_record) list \<Rightarrow>
   string \<Rightarrow> english_record \<Rightarrow> py_error + feature" where
  "alert_location float_of identifier fr num_poly r =
     (case build_ring float_of (en_split_tag r) of
        Inl e \<Rightarrow> Inl e
      | Inr no_dup_poly \<Rightarrow>
          (let ident = en_id_warning r
           in case dict_get fr num_poly of
                Inl e \<Rightarrow> Inl e
              | Inr f \<Rightarrow>
                  Inr \<lparr>f_type = ''Feature'',
                       f_properties =
                         \<lparr>p_identifier = ident, p_area = en_name r, p_reference = identifier,
                          p_zone = fr_name f, p_headline = en_headline r,
                          p_titre = fr_headline f, p_descrip_en = en_descript r,
                          p_descrip_fr = fr_descript f, p_effective = en_effective r,
                          p_expires = en_expires r, p_alert_type = en_warning r,
                          p_status = en_status_alert r, p_url = en_url r\<rparr>,
                       f_geometry = \<lparr>g_type = ''Polygon'', g_coordinates = [no_dup_poly]\<rparr>\<rparr>))"

fun features_loop ::
  "(string \<Rightarrow> py_error + rat) \<Rightarrow> string option \<Rightarrow> (string \<times> french_record) list \<Rightarrow>
   (string \<times> english_record) list \<Rightarrow> feature list \<Rightarrow> py_error + feature list" where
  "features_loop float_of identifier fr [] data = Inr data"
| "features_loop float_of identifier fr ((num_poly, r) # rest) data =
     (case alert_location float_of identifier fr num_poly r of
        Inl e \<Rightarrow> Inl e
      | Inr AlertLocation \<Rightarrow> features_loop float_of identifier fr rest (data @ [AlertLocation]))"

subsection \<open>\<^verbatim>\<open>weather_warning2geojson\<close>\<close>

text \<open>
  The parameters are what the function takes from outside: the conversion \<open>float_of\<close>,
  the setting \<^verbatim>\<open>GEOMET_WEATHER_BASEPATH\<close>, the clock reading \<^verbatim>\<open>datetime.utcnow()\<close>,
  the file path, and the tree \<^verbatim>\<open>etree.parse(filepath)\<close> gives (\<open>None\<close> when parsing
  fails: the handler only logs, and \<^verbatim>\<open>tree\<close> stays unbound).  \<^verbatim>\<open>data\<close> is bound
  only inside the branch for equal sizes, so the final \<^verbatim>\<open>return data\<close> raises
  UnboundLocalError in the other branch.
\<close>

definition weather_warning2geojson ::
  "(string \<Rightarrow> py_error + rat) \<Rightarrow> string \<Rightarrow> datetime \<Rightarrow> string \<Rightarrow> element option \<Rightarrow>
   py_error + feature list" where
  "weather_warning2geojson float_of basepath now filepath tree =
     (let url = ''https://dd.weather.gc.ca/'' @ filepath;
          url = str_replace (basepath @ ''/amqp/'') [] url
      in case tree of
           None \<Rightarrow> Inl UnboundLocalError
         | Some root_node \<Rightarrow>
     (case get_element root_node [cap ''identifier''] None of
        Inl e \<Rightarrow> Inl e
      | Inr identifier \<Rightarrow>
     (case get_element root_node [cap ''references''] None of
        Inl e \<Rightarrow> Inl e
      | Inr None \<Rightarrow> Inl AttributeError
      | Inr (Some references) \<Rightarrow>
     (let lastref = last (split_at (\<lambda>c. c = CHR '','') references)
      in case info_loop now url identifier lastref
                \<lparr>french_alert = [], english_alert = [], list_id = []\<rparr>
                (iter_tag (base_xml @ ''info'') root_node) of
           Inl e \<Rightarrow> Inl e
         | Inr st \<Rightarrow>
     (case expired_keys now (english_alert st) [] of
        Inl e \<Rightarrow> Inl e
      | Inr english_alert_remove \<Rightarrow>
     (case remove_keys english_alert_remove (english_alert st) (french_alert st) of
        Inl e \<Rightarrow> Inl e
      | Inr (en, fr) \<Rightarrow>
          if length fr = length en then features_loop float_of identifier fr en []
          else Inl UnboundLocalError))))))"

subsection \<open>The area records of a document, in document order\<close>

text \<open>
  A second reading of the loop over the \<^verbatim>\<open>info\<close> blocks, against which the loop is
  compared.  An \<^verbatim>\<open>info\<close> block is eligible when its expiry, formatted and parsed again,
  is after \<open>now\<close> or the identifier is not in \<^verbatim>\<open>list_id\<close>.  Every \<^verbatim>\<open>area\<close> of an
  eligible block is an occurrence of its key, with the record built from the area and
  the block; \<open>insert_new\<close> is \<^verbatim>\<open>if key not in d: d[key] = value\<close>, and
  \<open>first_occurrence\<close> is the record of the first occurrence of a key in a list.  Where an
  element or a date is missing the loop raises, and these functions take \<^verbatim>\<open>None\<close> or
  the empty string.
\<close>

definition insert_new :: "('k \<times> 'v) list \<Rightarrow> 'k \<times> 'v \<Rightarrow> ('k \<times> 'v) list" where
  "insert_new d kv = (if \<not> dict_contains (fst kv) d then d @ [kv] else d)"

definition first_occurrence :: "'k \<Rightarrow> ('k \<times> 'v) list \<Rightarrow> 'v option" where
  "first_occurrence k occs = map_option snd (find (\<lambda>kv. fst kv = k) occs)"

definition value_of :: "py_error + 'a option \<Rightarrow> 'a option" where
  "value_of x = (case x of Inl _ \<Rightarrow> None | Inr v \<Rightarrow> v)"

definition text_of :: "py_error + string \<Rightarrow> string" where
  "text_of x = (case x of Inl _ \<Rightarrow> [] | Inr s \<Rightarrow> s)"

definition block_date :: "element \<Rightarrow> string \<Rightarrow> string" where
  "block_date g name = (case date_of g [cap name] of Inl _ \<Rightarrow> [] | Inr d \<Rightarrow> strftime d)"

definition block_language :: "element \<Rightarrow> string option" where
  "block_language g = value_of (get_element g [cap ''language''] None)"

definition eligible :: "datetime \<Rightarrow> string option \<Rightarrow> string list \<Rightarrow> element \<Rightarrow> bool" where
  "eligible now identifier ids g =
     (case get_date_format (Some (block_date g ''expires'')) of
        Inl _ \<Rightarrow> False
      | Inr expires \<Rightarrow> dt_less now expires \<or> not_in_list identifier ids)"

definition french_entry :: "element \<Rightarrow> element \<Rightarrow> (string \<times> french_record) list" where
  "french_entry g i =
     (case value_of (get_element i [cap ''polygon''] None) of
        None \<Rightarrow> []
      | Some tag \<Rightarrow>
          [(id_warning_of tag,
            \<lparr>fr_id_warning = id_warning_of tag,
             fr_name = value_of (get_element i [cap ''areaDesc''] None),
             fr_headline = value_of (get_element g [cap ''headline''] None),
             fr_descript = text_of (descript_of g)\<rparr>)])"

definition english_entry :: "string \<Rightarrow> element \<Rightarrow> element \<Rightarrow> (string \<times> english_record) list" where
  "english_entry url g i =
     (case value_of (get_element i [cap ''polygon''] None) of
        None \<Rightarrow> []
      | Some tag \<Rightarrow>
          [(id_warning_of tag,
            \<lparr>en_split_tag = split_tag_of tag,
             en_name = value_of (get_element i [cap ''areaDesc''] None),
             en_headline = value_of (get_element g [cap ''headline''] None),
             en_effective = block_date g ''effective'',
             en_expires = block_date g ''expires'',
             en_warning = value_of (get_element g
                 [(base_xml @ ''parameter'', Some (Index 1)), cap ''value''] None),
             en_status_alert = value_of (get_element g
                 [(base_xml @ ''parameter'', Some (Last_minus 4)), cap ''value''] None),
             en_id_warning = id_warning_of tag,
             en_descript = text_of (descript_of g),
             en_url = url\<rparr>)])"

definition french_block :: "element \<Rightarrow> (string \<times> french_record) list" where
  "french_block g = concat (map (french_entry g) (iter_tag (base_xml @ ''area'') g))"

definition english_block :: "string \<Rightarrow> element \<Rightarrow> (string \<times> english_record) list" where
  "english_block url g = concat (map (english_entry url g) (iter_tag (base_xml @ ''area'') g))"

fun french_occurrences ::
  "datetime \<Rightarrow> string option \<Rightarrow> string \<Rightarrow> string list \<Rightarrow> element list \<Rightarrow>
   (string \<times> french_record) list" where
  "french_occurrences now identifier lastref ids [] = []"
| "french_occurrences now identifier lastref ids (g # gs) =
     (if eligible now identifier ids g
      then (if block_language g = Some ''fr-CA'' then french_block g else []) @
           french_occurrences now identifier lastref (ids @ [lastref]) gs
      else french_occurrences now identifier lastref ids gs)"

fun english_occurrences ::
  "datetime \<Rightarrow> string \<Rightarrow> string option \<Rightarrow> string \<Rightarrow> string list \<Rightarrow> element list \<Rightarrow>
   (string \<times> english_record) list" where
  "english_occurrences now url identifier lastref ids [] = []"
| "english_occurrences now url identifier lastref ids (g # gs) =
     (if eligible now identifier ids g
      then (if block_language g = Some ''fr-CA'' then [] else english_block url g) @
           english_occurrences now url identifier lastref (ids @ [lastref]) gs
      else english_occurrences now url identifier lastref ids gs)"


subsection \<open>A conversion for plain decimal literals\<close>

text \<open>
  \<^verbatim>\<open>float(s)\<close> on the literals CAP polygons are written in: an optional sign, digits,
  and an optional fraction.  It is used only to run the loader on example documents.
\<close>

definition is_digit :: "char \<Rightarrow> bool" where
  "is_digit c = in_class c digit_class"

definition nat_of_digits :: "string \<Rightarrow> nat" where
  "nat_of_digits s = foldl (\<lambda>a c. 10 * a + digit_val c) 0 s"

definition decimal_float :: "string \<Rightarrow> py_error + rat" where
  "decimal_float s =
     (let (sign, body) = (case s of
                            c # r \<Rightarrow> if c = CHR ''-'' then (- 1, r)
                                     else if c = CHR ''+'' then (1, r) else (1, s)
                          | [] \<Rightarrow> (1, s));
          ip = takeWhile is_digit body;
          rest = dropWhile is_digit body
      in case rest of
           [] \<Rightarrow> if ip = [] then Inl ValueError else Inr (sign * of_nat (nat_of_digits ip))
         | c # fp \<Rightarrow>
             if c = CHR ''.'' \<and> list_all is_digit fp \<and> (ip \<noteq> [] \<or> fp \<noteq> [])
             then Inr (sign * (of_nat (nat_of_digits ip) +
                               of_nat (nat_of_digits fp) / 10 ^ length fp))
             else Inl ValueError)"

subsection \<open>Auxiliary predicate\<close>

text \<open>\<open>heads xs x\<close>: the list \<open>xs\<close> starts with \<open>x\<close>.\<close>

definition heads :: "'a list \<Rightarrow> 'a \<Rightarrow> bool" where
  "heads xs x = (case xs of [] \<Rightarrow> False | y # _ \<Rightarrow> y = x)"

text \<open>\<^verbatim>\<open>self._get_date_format(english_alert[j][4]) < now\<close>, false when the date does
  not parse.\<close>

definition is_expired :: "datetime \<Rightarrow> english_record \<Rightarrow> bool" where
  "is_expired now r =
     (case get_date_format (Some (en_expires r)) of Inl _ \<Rightarrow> False | Inr d \<Rightarrow> dt_less d now)"

subsection \<open>Example documents\<close>

text \<open>Small CAP documents on which the loader is run: an element with text only, an
  \<^verbatim>\<open>area\<close>, an \<^verbatim>\<open>info\<close> block and an \<^verbatim>\<open>alert\<close> root.\<close>

definition leaf :: "string \<Rightarrow> string \<Rightarrow> element" where
  "leaf name s = Element (base_xml @ name) [] (Some s) []"

definition area_el :: "string \<Rightarrow> string \<Rightarrow> element" where
  "area_el nm poly = Element (base_xml @ ''area'') [] None [leaf ''areaDesc'' nm, leaf ''polygon'' poly]"

definition info_el :: "string \<Rightarrow> string \<Rightarrow> string \<Rightarrow> string \<Rightarrow> element list \<Rightarrow> element" where
  "info_el lang expires headline descr areas =
     Element (base_xml @ ''info'') [] None
       ([leaf ''language'' lang, leaf ''effective'' ''2026-01-01T00:00:00-00:00'',
         leaf ''expires'' expires, leaf ''headline'' headline, leaf ''description'' descr] @ areas)"

definition alert_el :: "element list \<Rightarrow> element" where
  "alert_el infos = Element (base_xml @ ''alert'') [] None
     ([leaf ''identifier'' ''id-1'', leaf ''references'' ''s,r0,t0 s,r1,t1''] @ infos)"

definition now1 :: datetime where
  "now1 = \<lparr>year = 2026, month = 11, day = 4, hour = 12, minute = 0, second = 0, microsecond = 250\<rparr>"

definition doc_en_only :: element where
  "doc_en_only = alert_el [info_el ''en-CA'' ''2030-01-02T03:04:05-00:00'' ''wind warning'' ''strong winds''
        [area_el ''Ottawa'' ''45.0,-75.0 45.1,-75.0 45.1,-75.1'']]"

definition doc_scenario :: element where
  "doc_scenario = alert_el
     [info_el ''en-CA'' ''2030-01-02T03:04:05-00:00'' ''wind warning'' ''strong winds''
        [area_el ''Ottawa'' ''45.0,-75.0 45.1,-75.0 45.1,-75.1''],
      info_el ''fr-CA'' ''2030-01-02T03:04:05-00:00'' ''avertissement de vent'' ''vents forts''
        [area_el ''Ottawa'' ''45.0,-75.0 45.1,-75.0 45.1,-75.1'']]"

definition doc_single_token :: element where
  "doc_single_token = alert_el
     [info_el ''en-CA'' ''2030-01-02T03:04:05-00:00'' ''wind warning'' ''strong winds''
        [area_el ''Ottawa'' ''45.0''],
      info_el ''fr-CA'' ''2030-01-02T03:04:05-00:00'' ''avertissement de vent'' ''vents forts''
        [area_el ''Ottawa'' ''45.0'']]"

definition expires1 :: datetime where
  "expires1 = \<lparr>year = 2030, month = 1, day = 2, hour = 3, minute = 4, second = 5, microsecond = 0\<rparr>"

definition scenario_feature :: "point list \<Rightarrow> feature" where
  "scenario_feature ring =
     \<lparr>f_type = ''Feature'',
      f_properties =
        \<lparr>p_identifier = ''a-450750451750451751'', p_area = Some ''Ottawa'',
         p_reference = Some ''id-1'', p_zone = Some ''Ottawa'',
         p_headline = Some ''wind warning'', p_titre = Some ''avertissement de vent'',
         p_descrip_en = ''strong winds'', p_descrip_fr = ''vents forts'',
         p_effective = ''2026-01-01T00:00:00Z'', p_expires = ''2030-01-02T03:04:05Z'',
         p_alert_type = None, p_status = None,
         p_url = ''https://dd.weather.gc.ca/alerts/cap/x.cap''\<rparr>,
      f_geometry = \<lparr>g_type = ''Polygon'', g_coordinates = [ring]\<rparr>\<rparr>"

subsection \<open>Example records\<close>

text \<open>Two entries of each dictionary, the first of them expired in 2020.\<close>

definition en_rec :: "string \<Rightarrow> string \<Rightarrow> english_record" where
  "en_rec key expires =
     \<lparr>en_split_tag = [''45.0'', ''-75.0''], en_name = Some ''Ottawa'',
      en_headline = Some ''wind warning'', en_effective = ''2026-01-01T00:00:00Z'',
      en_expires = expires, en_warning = None, en_status_alert = None,
      en_id_warning = key, en_descript = ''strong winds'',
      en_url = ''https://dd.weather.gc.ca/alerts/cap/x.cap''\<rparr>"

definition fr_rec :: "string \<Rightarrow> french_record" where
  "fr_rec key = \<lparr>fr_id_warning = key, fr_name = Some ''Ottawa'',
                 fr_headline = Some ''avertissement de vent'', fr_descript = ''vents forts''\<rparr>"

definition en_two :: "(string \<times> english_record) list" where
  "en_two = [(''a-1'', en_rec ''a-1'' ''2020-01-02T03:04:05Z''),
             (''a-2'', en_rec ''a-2'' ''2030-01-02T03:04:05Z'')]"

definition fr_two :: "(string \<times> french_record) list" where
  "fr_two = [(''a-1'', fr_rec ''a-1''), (''a-2'', fr_rec ''a-2'')]"

subsection \<open>Example blocks\<close>

text \<open>Two English \<^verbatim>\<open>info\<close> blocks with the same polygon, a third one expired in 2020,
  and the loader state before and after the first block.\<close>

definition url1 :: string where
  "url1 = ''https://dd.weather.gc.ca/alerts/cap/x.cap''"

definition info_first :: element where
  "info_first = info_el ''en-CA'' ''2030-01-02T03:04:05-00:00'' ''wind warning'' ''strong winds''
                  [area_el ''Ottawa'' ''45.0,-75.0'']"

definition info_later :: element where
  "info_later = info_el ''en-CA'' ''2030-01-02T03:04:05-00:00'' ''later warning'' ''later text''
                  [area_el ''Gatineau'' ''45.0,-75.0'']"

definition info_old :: element where
  "info_old = info_el ''en-CA'' ''2020-01-02T03:04:05-00:00'' ''old warning'' ''old text''
                  [area_el ''Hull'' ''46.0,-76.0'']"

definition st_empty :: loader_state where
  "st_empty = \<lparr>french_alert = [], english_alert = [], list_id = []\<rparr>"

definition st_first :: loader_state where
  "st_first = \<lparr>french_alert = [],
               english_alert = [(''a-450750'', en_rec ''a-450750'' ''2030-01-02T03:04:05Z'')],
               list_id = [''t1'']\<rparr>"


section \<open>Properties\<close>

subsection \<open>The date normalizer\<close>

lemma replace_from_char: "replace_from 0 [c] [] s = filter (\<lambda>x. x \<noteq> c) s"
  by (induction s) auto

lemma str_replace_char: "str_replace [c] [] s = filter (\<lambda>x. x \<noteq> c) s"
  by (simp add: str_replace_def replace_from_char)

lemma str_contains_char: "str_contains [c] s = (c \<in> set s)"
  by (induction s) auto

lemma filter_absent: "c \<notin> set s \<Longrightarrow> filter (\<lambda>x. x \<noteq> c) s = s"
  by (induction s) auto

lemma strip_char: "(if str_contains [c] s then str_replace [c] [] s else s) = filter (\<lambda>x. x \<noteq> c) s"
  by (simp add: str_replace_char str_contains_char filter_absent)

lemma get_date_format_Some:
  "get_date_format (Some s) =
     strptime (take 14 (filter (\<lambda>x. x \<notin> {CHR ''T'', CHR ''-'', CHR '':''}) s))"
proof -
  have "filter (\<lambda>x. x \<noteq> CHR '':'') (filter (\<lambda>x. x \<noteq> CHR ''-'') (filter (\<lambda>x. x \<noteq> CHR ''T'') s))
        = filter (\<lambda>x. x \<notin> {CHR ''T'', CHR ''-'', CHR '':''}) s"
    by (induction s) auto
  then show ?thesis
    by (simp add: get_date_format_def strip_char Let_def)
qed

lemma of_char_digit_char: "(of_char (digit_char k) :: nat) = 48 + k mod 10"
proof -
  have "48 + k mod 10 < 256" by (rule less_trans [of _ 58]) simp_all
  then show ?thesis by (simp add: digit_char_def)
qed

lemma digit_val_digit_char: "digit_val (digit_char k) = k mod 10"
  by (simp add: digit_val_def of_char_digit_char)

lemma in_class_digit_char:
  "in_class (digit_char k) (lo, hi) = (of_char lo \<le> 48 + k mod 10 \<and> 48 + k mod 10 \<le> (of_char hi :: nat))"
  by (simp add: in_class_def of_char_digit_char)

lemma digit_char_neq: "(of_char c :: nat) < 48 \<or> 57 < (of_char c :: nat) \<Longrightarrow> digit_char k \<noteq> c"
proof
  assume a: "(of_char c :: nat) < 48 \<or> 57 < (of_char c :: nat)" and e: "digit_char k = c"
  have "(of_char c :: nat) = 48 + k mod 10" using of_char_digit_char [of k] e by simp
  moreover have "k mod 10 < 10" by simp
  ultimately show False using a by linarith
qed

lemma digit_char_not_punct:
  "digit_char k \<noteq> CHR ''T''" "digit_char k \<noteq> CHR ''-''" "digit_char k \<noteq> CHR '':''" "digit_char k \<noteq> CHR '' ''"
  by (rule digit_char_neq, simp)+

lemma int_of_group_digits2: "n < 100 \<Longrightarrow> int_of_group (digits2 n) = n"
proof -
  assume "n < 100"
  then have "n div 10 mod 10 = n div 10" by simp
  then have "10 * (n div 10 mod 10) + n mod 10 = n" by simp
  then show ?thesis
    by (simp add: int_of_group_def digits2_def digit_char_not_punct digit_val_digit_char)
qed

lemma mod10_le9: "k mod 10 \<le> (9::nat)"
proof -
  have "k mod 10 < 10" by simp
  then show ?thesis by linarith
qed

lemma decimal4:
  assumes n: "(n::nat) < 10000"
  shows "10 * (10 * (10 * (n div 1000 mod 10) + n div 100 mod 10) + n div 10 mod 10) + n mod 10 = n"
proof -
  define q1 where "q1 = n div 10"
  define q2 where "q2 = q1 div 10"
  define q3 where "q3 = q2 div 10"
  have e2: "n div 100 = q2" unfolding q2_def q1_def by (simp add: div_mult2_eq)
  have e3: "n div 1000 = q3" unfolding q3_def q2_def q1_def by (simp add: div_mult2_eq)
  have s1: "10 * q1 + n mod 10 = n" unfolding q1_def by simp
  have s2: "10 * q2 + q1 mod 10 = q1" unfolding q2_def by simp
  have s3: "10 * q3 + q2 mod 10 = q2" unfolding q3_def by simp
  have "q3 < 10" using n e3 by (simp add: less_mult_imp_div_less)
  then have s4: "q3 mod 10 = q3" by simp
  have "10 * (10 * (10 * (q3 mod 10) + q2 mod 10) + q1 mod 10) + n mod 10 = n"
    by (simp only: s4 s3 s2 s1)
  then show ?thesis by (simp only: e2 e3 q1_def [symmetric])
qed

lemma int_of_group_digits4: "n < 10000 \<Longrightarrow> int_of_group (digits4 n) = n"
  using decimal4 [of n]
  by (simp add: int_of_group_def digits4_def digit_char_not_punct digit_val_digit_char)

lemma match_seq_digits2:
  "match_seq [(l1, h1), (l2, h2)] (digits2 n @ rest) =
     (if of_char l1 \<le> 48 + n div 10 mod 10 \<and> 48 + n div 10 mod 10 \<le> (of_char h1 :: nat) \<and>
         of_char l2 \<le> 48 + n mod 10 \<and> 48 + n mod 10 \<le> (of_char h2 :: nat)
      then Some (digits2 n, rest) else None)"
  by (simp add: digits2_def in_class_digit_char)

lemma match_seq_digits4:
  "match_seq [digit_class, digit_class, digit_class, digit_class] (digits4 n @ rest) = Some (digits4 n, rest)"
  by (simp add: digits4_def in_class_digit_char mod10_le9)

lemma match_alts_Cons:
  "match_alts (a # as) s =
     (case match_seq a s of None \<Rightarrow> match_alts as s | Some mr \<Rightarrow> mr # match_alts as s)"
  by (simp add: match_alts_def split: option.split)

lemma heads_iff: "heads xs x = (\<exists>ys. xs = x # ys)"
  by (cases xs) (auto simp add: heads_def)

lemma heads_Cons: "heads (x # ys) x"
  by (simp add: heads_def)

lemma two_digit_split:
  "(n::nat) < 100 \<Longrightarrow> n div 10 mod 10 = n div 10"
  by simp

lemma re_m_digits2:
  assumes "1 \<le> n" "n \<le> 12"
  shows "heads (match_alts re_m (digits2 n @ rest)) (digits2 n, rest)"
proof (cases "n < 10")
  case True
  then have "n div 10 = 0" "n mod 10 = n" "n \<le> 9" by simp_all
  with assms show ?thesis
    by (simp add: re_m_def match_alts_Cons match_seq_digits2 heads_Cons)
next
  case False
  with assms have "n div 10 = 1" "n mod 10 \<le> 2" by presburger+
  then show ?thesis
    by (simp add: re_m_def match_alts_Cons match_seq_digits2 heads_Cons)
qed

lemma re_d_digits2:
  assumes "1 \<le> n" "n \<le> 31"
  shows "heads (match_alts re_d (digits2 n @ rest)) (digits2 n, rest)"
proof -
  consider "n < 10" | "10 \<le> n" "n < 30" | "30 \<le> n" by linarith
  then show ?thesis
  proof cases
    case 1
    then have "n div 10 = 0" "n mod 10 = n" "n \<le> 9" by simp_all
    with assms show ?thesis
      by (simp add: re_d_def match_alts_Cons match_seq_digits2 heads_Cons)
  next
    case 2
    then have "n div 10 = 1 \<or> n div 10 = 2" by presburger
    then show ?thesis
      by (auto simp add: re_d_def match_alts_Cons match_seq_digits2 heads_Cons mod10_le9)
  next
    case 3
    with assms have "n div 10 = 3" "n mod 10 \<le> 1" by presburger+
    then show ?thesis
      by (simp add: re_d_def match_alts_Cons match_seq_digits2 heads_Cons)
  qed
qed

lemma re_H_digits2:
  assumes "n \<le> 23"
  shows "heads (match_alts re_H (digits2 n @ rest)) (digits2 n, rest)"
proof (cases "n < 20")
  case True
  then have "n div 10 = 0 \<or> n div 10 = 1" by presburger
  then show ?thesis
    by (auto simp add: re_H_def match_alts_Cons match_seq_digits2 heads_Cons mod10_le9)
next
  case False
  with assms have "n div 10 = 2" "n mod 10 \<le> 3" by presburger+
  then show ?thesis
    by (simp add: re_H_def match_alts_Cons match_seq_digits2 heads_Cons)
qed

lemma re_M_digits2:
  assumes "n \<le> 59"
  shows "heads (match_alts re_M (digits2 n @ rest)) (digits2 n, rest)"
proof -
  from assms have "n div 10 \<le> 5" by presburger
  moreover from this have "n div 10 mod 10 = n div 10" by simp
  ultimately show ?thesis
    by (simp add: re_M_def match_alts_Cons match_seq_digits2 heads_Cons mod10_le9)
qed

lemma re_S_digits2:
  assumes "n \<le> 59"
  shows "heads (match_alts re_S (digits2 n @ rest)) (digits2 n, rest)"
proof -
  from assms have "n div 10 \<le> 5" by presburger
  moreover from this have "n div 10 mod 10 = n div 10" by simp
  ultimately show ?thesis
    by (simp add: re_S_def match_alts_Cons match_seq_digits2 heads_Cons mod10_le9)
qed

lemma re_Y_digits4:
  "heads (match_alts re_Y (digits4 n @ rest)) (digits4 n, rest)"
  by (simp add: re_Y_def match_alts_Cons match_seq_digits4 heads_Cons)

lemma match_groups_heads:
  assumes "heads (match_alts g s) (m, r)" and "heads (match_groups gs r) (ms, r')"
  shows "heads (match_groups (g # gs) s) (m # ms, r')"
  using assms by (auto simp add: heads_iff)

lemma filter_digits2:
  "filter (\<lambda>x. x \<noteq> CHR ''T'' \<and> x \<noteq> CHR ''-'' \<and> x \<noteq> CHR '':'') (digits2 n) = digits2 n"
  by (simp add: digits2_def digit_char_not_punct)

lemma filter_digits4:
  "filter (\<lambda>x. x \<noteq> CHR ''T'' \<and> x \<noteq> CHR ''-'' \<and> x \<noteq> CHR '':'') (digits4 n) = digits4 n"
  by (simp add: digits4_def digit_char_not_punct)

lemma length_digits: "length (digits2 n) = 2" "length (digits4 n) = 4"
  by (simp_all add: digits2_def digits4_def)

lemma year_digits_4: "1000 \<le> y \<Longrightarrow> year_digits y = digits4 y"
  by (simp add: year_digits_def)

lemma normalise_strftime:
  "1000 \<le> year d \<Longrightarrow>
   take 14 (filter (\<lambda>x. x \<notin> {CHR ''T'', CHR ''-'', CHR '':''}) (strftime d)) =
   digits4 (year d) @ digits2 (month d) @ digits2 (day d) @
   digits2 (hour d) @ digits2 (minute d) @ digits2 (second d) @ []"
  unfolding strftime_def
  by (simp add: year_digits_4 filter_digits4 filter_digits2 length_digits)

lemma days_in_month_le: "days_in_month y m \<le> 31"
  by (simp add: days_in_month_def)

lemma strptime_digits:
  assumes "valid_datetime d" and "microsecond d = 0"
  shows "strptime (digits4 (year d) @ digits2 (month d) @ digits2 (day d) @
                   digits2 (hour d) @ digits2 (minute d) @ digits2 (second d) @ []) = Inr d"
proof -
  from assms(1) have r: "year d < 10000" "1 \<le> month d" "month d \<le> 12" "1 \<le> day d" "day d \<le> 31"
      "hour d \<le> 23" "minute d \<le> 59" "second d \<le> 59"
    using days_in_month_le [of "year d" "month d"] by (simp_all add: valid_datetime_def)
  have "heads (match_groups [] []) ([], [])" by (simp add: heads_def)
  then have "heads (match_groups [re_S] (digits2 (second d) @ [])) ([digits2 (second d)], [])"
    by (rule match_groups_heads [OF re_S_digits2 [OF r(8)]])
  then have "heads (match_groups [re_M, re_S] (digits2 (minute d) @ digits2 (second d) @ []))
               ([digits2 (minute d), digits2 (second d)], [])"
    by (rule match_groups_heads [OF re_M_digits2 [OF r(7)]])
  then have "heads (match_groups [re_H, re_M, re_S]
                 (digits2 (hour d) @ digits2 (minute d) @ digits2 (second d) @ []))
               ([digits2 (hour d), digits2 (minute d), digits2 (second d)], [])"
    by (rule match_groups_heads [OF re_H_digits2 [OF r(6)]])
  then have "heads (match_groups [re_d, re_H, re_M, re_S]
                 (digits2 (day d) @ digits2 (hour d) @ digits2 (minute d) @ digits2 (second d) @ []))
               ([digits2 (day d), digits2 (hour d), digits2 (minute d), digits2 (second d)], [])"
    by (rule match_groups_heads [OF re_d_digits2 [OF r(4) r(5)]])
  then have "heads (match_groups [re_m, re_d, re_H, re_M, re_S]
                 (digits2 (month d) @ digits2 (day d) @ digits2 (hour d) @ digits2 (minute d) @
                  digits2 (second d) @ []))
               ([digits2 (month d), digits2 (day d), digits2 (hour d), digits2 (minute d),
                 digits2 (second d)], [])"
    by (rule match_groups_heads [OF re_m_digits2 [OF r(2) r(3)]])
  then have "heads (match_groups [re_Y, re_m, re_d, re_H, re_M, re_S]
                 (digits4 (year d) @ digits2 (month d) @ digits2 (day d) @ digits2 (hour d) @
                  digits2 (minute d) @ digits2 (second d) @ []))
               ([digits4 (year d), digits2 (month d), digits2 (day d), digits2 (hour d),
                 digits2 (minute d), digits2 (second d)], [])"
    by (rule match_groups_heads [OF re_Y_digits4])
  then have m: "re_match [re_Y, re_m, re_d, re_H, re_M, re_S]
                 (digits4 (year d) @ digits2 (month d) @ digits2 (day d) @ digits2 (hour d) @
                  digits2 (minute d) @ digits2 (second d) @ []) =
               Some ([digits4 (year d), digits2 (month d), digits2 (day d), digits2 (hour d),
                 digits2 (minute d), digits2 (second d)], [])"
    unfolding re_match_def heads_iff by (elim exE) (simp only: list.case)
  have i: "int_of_group (digits4 (year d)) = year d" "int_of_group (digits2 (month d)) = month d"
     "int_of_group (digits2 (day d)) = day d" "int_of_group (digits2 (hour d)) = hour d"
     "int_of_group (digits2 (minute d)) = minute d" "int_of_group (digits2 (second d)) = second d"
    using r by (simp_all add: int_of_group_digits4 int_of_group_digits2)
  have e: "\<lparr>year = year d, month = month d, day = day d, hour = hour d, minute = minute d,
            second = second d, microsecond = 0\<rparr> = d"
    using assms(2) by simp
  show ?thesis
    unfolding strptime_def m by (simp add: i e assms(1) Let_def)
qed

lemma get_date_format_strftime_rt:
  "valid_datetime d \<Longrightarrow> microsecond d = 0 \<Longrightarrow> 1000 \<le> year d \<Longrightarrow>
   get_date_format (Some (strftime d)) = Inr d"
  by (simp only: get_date_format_Some normalise_strftime strptime_digits)

lemmas date_eval = get_date_format_def str_replace_def strptime_def re_match_def match_alts_def
  re_Y_def re_m_def re_d_def re_H_def re_M_def re_S_def in_class_def int_of_group_def digit_val_def
  valid_datetime_def days_in_month_def is_leap_def Let_def
  strftime_def year_digits_def digits2_def digits4_def digit_char_def char_of_eq_iff

text \<open>
  Claim C8, as stated: normalizing the formatter's output of \<open>d\<close> returns \<open>d\<close> for every
  instant.  For the year 999 the formatter writes \<^verbatim>\<open>999-01-02T03:04:05Z\<close>; the
  normalizer keeps \<^verbatim>\<open>9990102030405Z\<close>, which the format does not match to its end,
  and raises ValueError.
\<close>

theorem roundtrip_fails_before_1000:
  "valid_datetime \<lparr>year = 999, month = 1, day = 2, hour = 3, minute = 4, second = 5, microsecond = 0\<rparr> \<and>
   strftime \<lparr>year = 999, month = 1, day = 2, hour = 3, minute = 4, second = 5, microsecond = 0\<rparr>
     = ''999-01-02T03:04:05Z'' \<and>
   get_date_format
     (Some (strftime \<lparr>year = 999, month = 1, day = 2, hour = 3, minute = 4, second = 5, microsecond = 0\<rparr>))
     = Inl ValueError"
  by (simp add: date_eval)

text \<open>
  Claim C8, amended.  The date normalizer removes every \<^verbatim>\<open>T\<close>, \<^verbatim>\<open>-\<close> and \<^verbatim>\<open>:\<close> from
  its input, keeps the first 14 characters and parses them with the format
  \<^verbatim>\<open>%Y%m%d%H%M%S\<close>, without any time-zone conversion; for every valid instant \<open>d\<close> at
  second precision the fourteen digits of \<open>d\<close> parse to \<open>d\<close>, and, when the year of
  \<open>d\<close> is at least 1000, normalizing the formatter's output \<^verbatim>\<open>YYYY-MM-DDTHH:MM:SSZ\<close>
  of \<open>d\<close> gives \<open>d\<close> back.
\<close>

theorem date_normalizer_roundtrip:
  "get_date_format (Some s) =
     strptime (take 14 (filter (\<lambda>x. x \<notin> {CHR ''T'', CHR ''-'', CHR '':''}) s)) \<and>
   (valid_datetime d \<and> microsecond d = 0 \<longrightarrow>
      strptime (digits4 (year d) @ digits2 (month d) @ digits2 (day d) @
                digits2 (hour d) @ digits2 (minute d) @ digits2 (second d)) = Inr d) \<and>
   (valid_datetime d \<and> microsecond d = 0 \<and> 1000 \<le> year d \<longrightarrow>
      get_date_format (Some (strftime d)) = Inr d)"
  using get_date_format_Some [of s] strptime_digits [of d] get_date_format_strftime_rt [of d]
  by simp

theorem date_normalizer_roundtrip_witness:
  "valid_datetime \<lparr>year = 2030, month = 1, day = 2, hour = 3, minute = 4, second = 5, microsecond = 0\<rparr> \<and>
   strftime \<lparr>year = 2030, month = 1, day = 2, hour = 3, minute = 4, second = 5, microsecond = 0\<rparr>
     = ''2030-01-02T03:04:05Z'' \<and>
   get_date_format (Some ''2030-01-02T03:04:05Z'') =
     Inr \<lparr>year = 2030, month = 1, day = 2, hour = 3, minute = 4, second = 5, microsecond = 0\<rparr>"
proof -
  let ?d = "\<lparr>year = 2030, month = 1, day = 2, hour = 3, minute = 4, second = 5, microsecond = 0\<rparr>"
  have v: "valid_datetime ?d \<and> microsecond ?d = 0 \<and> 1000 \<le> year ?d"
    by (simp add: valid_datetime_def days_in_month_def is_leap_def)
  have f: "strftime ?d = ''2030-01-02T03:04:05Z''"
    by (simp add: strftime_def year_digits_def digits2_def digits4_def digit_char_def char_of_eq_iff)
  from date_normalizer_roundtrip [of "[]" ?d] v
  have "get_date_format (Some (strftime ?d)) = Inr ?d" by blast
  with v f show ?thesis by simp
qed

subsection \<open>The area key\<close>

text \<open>
  Claim C7.  The area key is \<^verbatim>\<open>a-\<close> followed by the first 25 characters of the polygon
  string without its \<^verbatim>\<open>-\<close>, \<^verbatim>\<open>,\<close>, blank and \<^verbatim>\<open>.\<close> characters; equal polygon
  strings give equal keys, and polygon strings whose cleaned forms differ within the first
  25 characters give different keys.
\<close>

theorem area_key_derivation:
  "id_warning_of tag =
     ''a-'' @ take 25 (filter (\<lambda>c. c \<noteq> CHR ''-'' \<and> c \<noteq> CHR '','' \<and> c \<noteq> CHR '' '' \<and> c \<noteq> CHR ''.'') tag) \<and>
   (tag = tag' \<longrightarrow> id_warning_of tag = id_warning_of tag') \<and>
   (take 25 (filter (\<lambda>c. c \<noteq> CHR ''-'' \<and> c \<noteq> CHR '','' \<and> c \<noteq> CHR '' '' \<and> c \<noteq> CHR ''.'') tag) \<noteq>
    take 25 (filter (\<lambda>c. c \<noteq> CHR ''-'' \<and> c \<noteq> CHR '','' \<and> c \<noteq> CHR '' '' \<and> c \<noteq> CHR ''.'') tag')
      \<longrightarrow> id_warning_of tag \<noteq> id_warning_of tag')"
  by (simp add: id_warning_of_def)

theorem area_key_derivation_witness:
  "id_warning_of ''45.0,-75.0 45.1,-75.0 45.1,-75.1'' = ''a-450750451750451751'' \<and>
   id_warning_of ''45.0,-75.0 45.1,-75.0 45.1,-75.2'' = ''a-450750451750451752'' \<and>
   id_warning_of ''45.0,-75.0 45.1,-75.0 45.1,-75.1'' \<noteq> id_warning_of ''45.0,-75.0 45.1,-75.0 45.1,-75.2''"
  using area_key_derivation [of "''45.0,-75.0 45.1,-75.0 45.1,-75.1''" "''45.0,-75.0 45.1,-75.0 45.1,-75.2''"]
  by (simp add: id_warning_of_def)

subsection \<open>The element helper\<close>


lemma find_path_bad: "\<not> list_all step_ok path \<Longrightarrow> find_path node path = Inl SyntaxError"
  by (simp add: find_path_def iterfind_def)





subsection \<open>The polygon loop\<close>

lemma getitem_nat: "i < length xs \<Longrightarrow> getitem xs (int i) = Inr (xs ! i)"
  by (simp add: getitem_def)

lemma getitem_length: "getitem xs (int (length xs)) = Inl IndexError"
  by (simp add: getitem_def)

lemma getitem_not_IndexError: "getitem xs i \<noteq> Inl IndexError \<Longrightarrow> \<exists>x \<in> set xs. getitem xs i = Inr x"
  by (auto simp add: getitem_def split: if_splits)

lemma length_filter_even: "length (filter even [0..<n]) = (n + 1) div 2"
  by (induction n) auto

lemma reversed_range2_bound:
  assumes "even n" and "l \<in> set (reversed_range2 n)"
  shows "l + 1 < n"
proof -
  from assms(2) have "even l" "l < n" by (auto simp add: reversed_range2_def)
  with assms(1) show ?thesis by (metis Suc_eq_plus1 Suc_lessI even_Suc)
qed

lemma reversed_range2_odd:
  assumes "odd n"
  shows "reversed_range2 n = (n - 1) # reversed_range2 (n - 1)"
proof -
  from assms obtain m where n: "n = Suc m" and m: "even m" by (cases n) auto
  show ?thesis unfolding n using m by (simp add: reversed_range2_def)
qed

lemma poly_loop_pairs:
  assumes "1 < length toks" and "\<forall>l \<in> set ls. l + 1 < length toks"
    and "\<forall>t \<in> set toks. \<exists>v. float_of t = Inr v"
  shows "poly_loop float_of toks ls acc =
           Inr (acc @ map (\<lambda>l. [projr (float_of (toks ! (l + 1))), projr (float_of (toks ! l)), 0]) ls)"
  using assms(2)
proof (induction ls arbitrary: acc)
  case Nil
  then show ?case by simp
next
  case (Cons l ls)
  then have b: "l + 1 < length toks" "l < length toks" by auto
  have g1: "getitem toks (int l + 1) = Inr (toks ! (l + 1))"
    using getitem_nat [OF b(1)] by (simp add: add.commute)
  have g0: "getitem toks (int l) = Inr (toks ! l)"
    using getitem_nat [OF b(2)] .
  from assms(3) b obtain lon lat where
    f: "float_of (toks ! (l + 1)) = Inr lon" "float_of (toks ! l) = Inr lat"
    by (meson nth_mem)
  from Cons have "\<forall>l \<in> set ls. l + 1 < length toks" by simp
  from Cons.IH [OF this] show ?case
    using assms(1) g0 g1 f by simp
qed

lemma poly_loop_no_IndexError:
  assumes "\<forall>l \<in> set ls. l + 1 < length toks" and "\<forall>t. float_of t \<noteq> Inl IndexError"
  shows "poly_loop float_of toks ls acc \<noteq> Inl IndexError"
  using assms(1)
proof (induction ls arbitrary: acc)
  case Nil
  then show ?case by simp
next
  case (Cons l ls)
  then have b: "l + 1 < length toks" "l < length toks" by auto
  have g1: "getitem toks (int l + 1) = Inr (toks ! (l + 1))"
    using getitem_nat [OF b(1)] by (simp add: add.commute)
  have g0: "getitem toks (int l) = Inr (toks ! l)"
    using getitem_nat [OF b(2)] .
  from Cons have "\<forall>l \<in> set ls. l + 1 < length toks" by simp
  from Cons.IH [OF this] show ?case
    using g0 g1 assms(2)
    by (auto split: sum.splits)
qed

lemma poly_loop_odd:
  assumes "odd (length toks)" and "3 \<le> length toks"
  shows "poly_loop float_of toks (reversed_range2 (length toks)) [] = Inl IndexError"
proof -
  have "int (length toks - 1) + 1 = int (length toks)" using assms(2) by simp
  then have "getitem toks (int (length toks - 1) + 1) = Inl IndexError"
    by (simp add: getitem_length)
  then show ?thesis
    using assms(2) by (simp add: reversed_range2_odd [OF assms(1)])
qed

lemmas float_eval = decimal_float_def is_digit_def nat_of_digits_def in_class_def digit_val_def

lemma f1: "decimal_float ''45.0'' = Inr 45" "decimal_float ''-75.0'' = Inr (- 75)"
  "decimal_float ''45.1'' = Inr (451 / 10)" "decimal_float ''-75.1'' = Inr (- (751 / 10))"
  by (simp_all add: float_eval)

lemma decimal_float_not_IndexError: "decimal_float t \<noteq> Inl IndexError"
  by (simp add: decimal_float_def Let_def split: list.split prod.split)

text \<open>
  Claim C10, as stated: on every token list of even length \<open>2n\<close> with \<open>n \<ge> 1\<close> the pair
  loop produces \<open>n\<close> triples.  The polygon text \<^verbatim>\<open>45.0,-75.0  45.1\<close>, with a doubled
  blank, is split into four tokens, the third of them empty; \<^verbatim>\<open>float('')\<close> raises
  ValueError and the loop produces no triple at all.
\<close>

theorem polygon_loop_empty_token:
  "split_tag_of ''45.0,-75.0  45.1'' = [''45.0'', ''-75.0'', [], ''45.1''] \<and>
   even (length (split_tag_of ''45.0,-75.0  45.1'')) \<and>
   2 \<le> length (split_tag_of ''45.0,-75.0  45.1'') \<and>
   decimal_float [] = Inl ValueError \<and>
   poly_loop decimal_float (split_tag_of ''45.0,-75.0  45.1'')
     (reversed_range2 (length (split_tag_of ''45.0,-75.0  45.1''))) [] = Inl ValueError"
  by (simp add: split_tag_of_def reversed_range2_def upt_rec getitem_def f1 float_eval)

text \<open>
  Claim C10, amended.  On a token list of even length \<open>2n\<close> with \<open>n \<ge> 1\<close> whose tokens
  all convert, the pair loop returns exactly \<open>n\<close> triples \<open>[lon, lat, 0]\<close>, one for each
  index of the reversed range; on an even-length list it never raises IndexError (the
  conversion itself raising none); on a token list of odd length at least 3 it raises
  IndexError, reading index \<open>l + 1\<close> = length at the first step.
\<close>

theorem polygon_builder_even_only:
  "(even (length toks) \<and> 2 \<le> length toks \<and> (\<forall>t \<in> set toks. \<exists>v. float_of t = Inr v) \<longrightarrow>
      (\<exists>poly. poly_loop float_of toks (reversed_range2 (length toks)) [] = Inr poly \<and>
              length poly = length toks div 2 \<and>
              poly = map (\<lambda>l. [projr (float_of (toks ! (l + 1))), projr (float_of (toks ! l)), 0])
                         (reversed_range2 (length toks)))) \<and>
   (even (length toks) \<and> (\<forall>t. float_of t \<noteq> Inl IndexError) \<longrightarrow>
      poly_loop float_of toks (reversed_range2 (length toks)) [] \<noteq> Inl IndexError) \<and>
   (odd (length toks) \<and> 3 \<le> length toks \<longrightarrow>
      poly_loop float_of toks (reversed_range2 (length toks)) [] = Inl IndexError)"
proof (intro conjI impI)
  assume a: "even (length toks) \<and> 2 \<le> length toks \<and> (\<forall>t \<in> set toks. \<exists>v. float_of t = Inr v)"
  then have b: "\<forall>l \<in> set (reversed_range2 (length toks)). l + 1 < length toks"
    using reversed_range2_bound by blast
  from a have "1 < length toks" by simp
  from poly_loop_pairs [OF this b, of float_of "[]"] a
  have p: "poly_loop float_of toks (reversed_range2 (length toks)) [] =
           Inr (map (\<lambda>l. [projr (float_of (toks ! (l + 1))), projr (float_of (toks ! l)), 0])
                    (reversed_range2 (length toks)))"
    by simp
  have "length (reversed_range2 (length toks)) = length toks div 2"
    using a by (simp add: reversed_range2_def length_filter_even)
  with p show "\<exists>poly. poly_loop float_of toks (reversed_range2 (length toks)) [] = Inr poly \<and>
              length poly = length toks div 2 \<and>
              poly = map (\<lambda>l. [projr (float_of (toks ! (l + 1))), projr (float_of (toks ! l)), 0])
                         (reversed_range2 (length toks))"
    by simp
next
  assume a: "even (length toks) \<and> (\<forall>t. float_of t \<noteq> Inl IndexError)"
  then have b: "\<forall>l \<in> set (reversed_range2 (length toks)). l + 1 < length toks"
    using reversed_range2_bound by blast
  from poly_loop_no_IndexError [OF b] a
  show "poly_loop float_of toks (reversed_range2 (length toks)) [] \<noteq> Inl IndexError" by blast
next
  assume "odd (length toks) \<and> 3 \<le> length toks"
  then show "poly_loop float_of toks (reversed_range2 (length toks)) [] = Inl IndexError"
    using poly_loop_odd by blast
qed

theorem polygon_builder_even_only_witness:
  "poly_loop decimal_float [''45.0'', ''-75.0'', ''45.1'', ''-75.1'']
     (reversed_range2 (length [''45.0'', ''-75.0'', ''45.1'', ''-75.1''])) [] =
     Inr [[- (751 / 10), 451 / 10, 0], [- 75, 45, 0]] \<and>
   poly_loop decimal_float [''45.0'', ''-75.0'', ''45.1'']
     (reversed_range2 (length [''45.0'', ''-75.0'', ''45.1''])) [] = Inl IndexError"
proof -
  let ?even = "[''45.0'', ''-75.0'', ''45.1'', ''-75.1'']"
  let ?odd = "[''45.0'', ''-75.0'', ''45.1'']"
  have e: "\<exists>v. decimal_float ''45.0'' = Inr v" "\<exists>v. decimal_float ''-75.0'' = Inr v"
    "\<exists>v. decimal_float ''45.1'' = Inr v" "\<exists>v. decimal_float ''-75.1'' = Inr v"
    by (rule exI, rule f1)+
  have h1: "even (length ?even) \<and> 2 \<le> length ?even \<and> (\<forall>t \<in> set ?even. \<exists>v. decimal_float t = Inr v)"
    using e by simp
  have h2: "even (length ?even) \<and> (\<forall>t. decimal_float t \<noteq> Inl IndexError)"
    by (simp add: decimal_float_not_IndexError)
  have h3: "odd (length ?odd) \<and> 3 \<le> length ?odd" by simp
  have len: "reversed_range2 (length ?even) = [2, 0]"
    by (simp add: reversed_range2_def upt_rec)
  from polygon_builder_even_only [of ?even decimal_float] h1 h2
  have p: "poly_loop decimal_float ?even (reversed_range2 (length ?even)) [] =
          Inr (map (\<lambda>l. [projr (decimal_float (?even ! (l + 1))), projr (decimal_float (?even ! l)), 0])
                   (reversed_range2 (length ?even)))"
    by blast
  have v: "map (\<lambda>l. [projr (decimal_float (?even ! (l + 1))), projr (decimal_float (?even ! l)), 0])
               (reversed_range2 (length ?even)) =
             [[- (751 / 10), 451 / 10, 0], [- 75, 45, 0]]"
    unfolding len by (simp add: f1)
  have a: "poly_loop decimal_float ?even (reversed_range2 (length ?even)) [] =
             Inr [[- (751 / 10), 451 / 10, 0], [- 75, 45, 0]]"
    using p unfolding v .
  from polygon_builder_even_only [of ?odd decimal_float] h3
  have b: "poly_loop decimal_float ?odd (reversed_range2 (length ?odd)) [] = Inl IndexError"
    by blast
  from a b show ?thesis by (rule conjI)
qed

subsection \<open>Running the loader on the example documents\<close>


lemmas tree_eval = leaf_def area_el_def info_el_def alert_el_def
  get_element_def find_path_def iterfind_def iterchildren_def iter_tag_def getitem_def cap_def base_xml_def

lemmas loader_eval = weather_warning2geojson_def info_step_def descript_of_def
  french_info_def english_info_def date_of_def
  id_warning_of_def split_tag_of_def not_in_list_def strip_def is_space_def
  dict_contains_def dict_get_def dict_del_def dt_less_def dt_key_def

lemma en_only_eval: "weather_warning2geojson decimal_float ''/data'' now1 ''/data/amqp/alerts/cap/x.cap'' (Some doc_en_only) = Inl UnboundLocalError"
  by (simp add: doc_en_only_def now1_def tree_eval date_eval loader_eval)

lemmas ring_eval = alert_location_def build_ring_def reversed_range2_def getitem_def

lemma upt4: "[0..<6] = [0, 1, 2, 3, 4, 5]" "[0..<1] = [0]"
  by (simp_all add: upt_rec)

lemma scenario_eval:
  "\<not> dt_less expires1 now \<Longrightarrow>
   weather_warning2geojson decimal_float ''/data'' now ''/data/amqp/alerts/cap/x.cap'' (Some doc_scenario) =
     Inr [scenario_feature [[- (751 / 10), 451 / 10, 0], [- 75, 451 / 10, 0], [- 75, 45, 0], [- 75, 45, 0]]]"
  by (simp add: doc_scenario_def expires1_def scenario_feature_def tree_eval date_eval
        weather_warning2geojson_def info_step_def descript_of_def
        french_info_def english_info_def date_of_def
        id_warning_of_def split_tag_of_def not_in_list_def strip_def is_space_def
        dict_contains_def dict_get_def dict_del_def ring_eval f1 upt4)

lemma single_token_eval:
  "\<not> dt_less expires1 now \<Longrightarrow>
   weather_warning2geojson float_of ''/data'' now ''/data/amqp/alerts/cap/x.cap'' (Some doc_single_token) =
     Inl IndexError"
  by (simp add: doc_single_token_def expires1_def tree_eval date_eval
        weather_warning2geojson_def info_step_def descript_of_def
        french_info_def english_info_def date_of_def
        id_warning_of_def split_tag_of_def not_in_list_def strip_def is_space_def
        dict_contains_def dict_get_def dict_del_def ring_eval upt4)

lemma dt_less_asym: "dt_less a b \<Longrightarrow> \<not> dt_less b a"
  by (simp add: dt_less_def less_asym)

lemma dt_le_iff: "dt_le a b = (\<not> dt_less b a)"
  by (simp add: dt_le_def dt_less_def not_less)

lemma now1_before_expires1: "dt_less now1 expires1"
  by (simp add: dt_less_def dt_key_def now1_def expires1_def)

text \<open>
  Claim C1.  The claim says that unequal sizes of the two dictionaries after the expiry
  filter give an empty feature list and no exception.  On a document with one English
  \<^verbatim>\<open>info\<close> block and no French one the sizes are 1 and 0, \<^verbatim>\<open>data\<close> is never bound,
  and \<^verbatim>\<open>return data\<close> raises UnboundLocalError.
\<close>

theorem unequal_sizes_unbound_data:
  "weather_warning2geojson decimal_float ''/data'' now1 ''/data/amqp/alerts/cap/x.cap''
     (Some doc_en_only) = Inl UnboundLocalError"
  by (rule en_only_eval)

text \<open>
  Claim C2, as stated: on the scenario document the ring would be
  \<open>[[-75.0,45.1,0],[-75.0,45.0,0],[-75.1,45.1,0],[-75.0,45.0,0]]\<close>.  The loader returns one
  feature, and its ring is a different one.
\<close>

theorem scenario_ring_not_as_claimed:
  "weather_warning2geojson decimal_float ''/data'' now1 ''/data/amqp/alerts/cap/x.cap''
     (Some doc_scenario) =
     Inr [scenario_feature [[- (751 / 10), 451 / 10, 0], [- 75, 451 / 10, 0], [- 75, 45, 0], [- 75, 45, 0]]] \<and>
   g_coordinates (f_geometry (scenario_feature
       [[- (751 / 10), 451 / 10, 0], [- 75, 451 / 10, 0], [- 75, 45, 0], [- 75, 45, 0]])) \<noteq>
     [[[- 75, 451 / 10, 0], [- 75, 45, 0], [- (751 / 10), 451 / 10, 0], [- 75, 45, 0]]]"
  using scenario_eval [OF dt_less_asym [OF now1_before_expires1]]
  by (simp add: scenario_feature_def)

text \<open>
  Claim C2, amended.  With the expiry in the future, the scenario document (one English
  \<^verbatim>\<open>info\<close> block with polygon \<^verbatim>\<open>45.0,-75.0 45.1,-75.0 45.1,-75.1\<close> and a matching
  \<^verbatim>\<open>fr-CA\<close> block) yields exactly one feature, whose ring is the pairs in reverse order
  with longitude first, followed by the last of them again:
  \<open>[[-75.1,45.1,0],[-75.0,45.1,0],[-75.0,45.0,0],[-75.0,45.0,0]]\<close>.
\<close>

theorem scenario_ring:
  "dt_less now expires1 \<Longrightarrow>
   weather_warning2geojson decimal_float ''/data'' now ''/data/amqp/alerts/cap/x.cap''
     (Some doc_scenario) =
     Inr [scenario_feature [[- (751 / 10), 451 / 10, 0], [- 75, 451 / 10, 0], [- 75, 45, 0], [- 75, 45, 0]]]"
  by (rule scenario_eval [OF dt_less_asym])

theorem scenario_ring_witness:
  "dt_less now1 expires1 \<and>
   weather_warning2geojson decimal_float ''/data'' now1 ''/data/amqp/alerts/cap/x.cap''
     (Some doc_scenario) =
     Inr [scenario_feature [[- (751 / 10), 451 / 10, 0], [- 75, 451 / 10, 0], [- 75, 45, 0], [- 75, 45, 0]]]"
  using scenario_ring [OF now1_before_expires1] now1_before_expires1 by simp

text \<open>
  Claim C5.  The claim says that a record whose token list has at most one token still
  gives a feature, with an empty ring.  The loop indeed skips every pair, but then
  \<^verbatim>\<open>poly[-1]\<close> is read from the empty list: on a document whose polygon is the single
  token \<^verbatim>\<open>45.0\<close> the loader raises IndexError.
\<close>

theorem single_token_index_error:
  "weather_warning2geojson decimal_float ''/data'' now1 ''/data/amqp/alerts/cap/x.cap''
     (Some doc_single_token) = Inl IndexError"
  by (rule single_token_eval [OF dt_less_asym [OF now1_before_expires1]])

lemma build_ring_short:
  "length tokens \<le> 1 \<Longrightarrow> build_ring float_of tokens = Inl IndexError"
proof -
  assume a: "length tokens \<le> 1"
  have "poly_loop float_of tokens ls [] = Inr []" for ls
    using a by (induction ls) simp_all
  then show ?thesis by (simp add: build_ring_def getitem_def)
qed

subsection \<open>The expiry filter\<close>

lemma expired_keys_eq:
  assumes "expired_keys now en acc = Inr ks"
  shows "ks = acc @ map fst (filter (\<lambda>jr. is_expired now (snd jr)) en) \<and>
         (\<forall>(j, r) \<in> set en. \<exists>d. get_date_format (Some (en_expires r)) = Inr d)"
  using assms
proof (induction en arbitrary: acc)
  case Nil
  then show ?case by simp
next
  case (Cons jr en)
  obtain j r where jr: "jr = (j, r)" by (cases jr)
  from Cons.prems obtain d where
    d: "get_date_format (Some (en_expires r)) = Inr d" and
    rest: "expired_keys now en (if dt_less d now then acc @ [j] else acc) = Inr ks"
    unfolding jr by (auto split: sum.splits)
  from Cons.IH [OF rest] d show ?case
    unfolding jr by (auto simp add: is_expired_def split: if_splits)
qed

lemma dict_del_Inr:
  "dict_del key d = Inr d' \<Longrightarrow> d' = filter (\<lambda>kv. fst kv \<noteq> key) d \<and> dict_contains key d"
  by (auto simp add: dict_del_def split: if_splits)

lemma dict_del_Inl: "dict_del key d = Inl e \<Longrightarrow> e = KeyError \<and> \<not> dict_contains key d"
  by (auto simp add: dict_del_def split: if_splits)

lemma dict_contains_filter:
  "dict_contains k (filter (\<lambda>kv. fst kv \<noteq> key) d) = (dict_contains k d \<and> k \<noteq> key)"
  by (auto simp add: dict_contains_def)

lemma remove_keys_filter:
  assumes "remove_keys ks en fr = Inr (en', fr')"
  shows "en' = filter (\<lambda>kv. fst kv \<notin> set ks) en \<and> fr' = filter (\<lambda>kv. fst kv \<notin> set ks) fr \<and>
         (\<forall>k \<in> set ks. dict_contains k en \<and> dict_contains k fr)"
  using assms
proof (induction ks arbitrary: en fr)
  case Nil
  then show ?case by simp
next
  case (Cons key keys)
  from Cons.prems obtain en1 fr1 where
    e: "dict_del key en = Inr en1" and f: "dict_del key fr = Inr fr1" and
    rest: "remove_keys keys en1 fr1 = Inr (en', fr')"
    by (auto split: sum.splits)
  note e' = dict_del_Inr [OF e] and f' = dict_del_Inr [OF f]
  from Cons.IH [OF rest] have
    a: "en' = filter (\<lambda>kv. fst kv \<notin> set keys) en1" and
    b: "fr' = filter (\<lambda>kv. fst kv \<notin> set keys) fr1" and
    c: "\<forall>k \<in> set keys. dict_contains k en1 \<and> dict_contains k fr1"
    by simp_all
  from a e' have "en' = filter (\<lambda>kv. fst kv \<notin> set (key # keys)) en"
    by (auto intro: filter_cong)
  moreover from b f' have "fr' = filter (\<lambda>kv. fst kv \<notin> set (key # keys)) fr"
    by (auto intro: filter_cong)
  moreover from c e' f' have "\<forall>k \<in> set (key # keys). dict_contains k en \<and> dict_contains k fr"
    by (simp add: dict_contains_filter)
  ultimately show ?case by blast
qed

lemma remove_keys_Inl: "remove_keys ks en fr = Inl e \<Longrightarrow> e = KeyError"
proof (induction ks arbitrary: en fr)
  case Nil
  then show ?case by simp
next
  case (Cons key keys)
  then show ?case
    by (auto split: sum.splits dest: dict_del_Inl)
qed

lemma remove_keys_total:
  assumes "distinct ks" and "\<forall>k \<in> set ks. dict_contains k en \<and> dict_contains k fr"
  shows "\<exists>en' fr'. remove_keys ks en fr = Inr (en', fr')"
  using assms
proof (induction ks arbitrary: en fr)
  case Nil
  then show ?case by simp
next
  case (Cons key keys)
  let ?en = "filter (\<lambda>kv. fst kv \<noteq> key) en"
  let ?fr = "filter (\<lambda>kv. fst kv \<noteq> key) fr"
  from Cons.prems have d: "dict_del key en = Inr ?en" "dict_del key fr = Inr ?fr"
    by (simp_all add: dict_del_def)
  from Cons.prems have "\<forall>k \<in> set keys. dict_contains k ?en \<and> dict_contains k ?fr"
    by (auto simp add: dict_contains_filter)
  with Cons.IH [of ?en ?fr] Cons.prems(1) obtain en' fr' where
    "remove_keys keys ?en ?fr = Inr (en', fr')" by auto
  with d show ?case by simp
qed

lemma expired_keys_distinct:
  assumes "expired_keys now en [] = Inr ks" and "distinct (map fst en)"
  shows "distinct ks \<and> (\<forall>k \<in> set ks. dict_contains k en)"
proof -
  from expired_keys_eq [OF assms(1)]
  have ks: "ks = map fst (filter (\<lambda>jr. is_expired now (snd jr)) en)" by simp
  from assms(2) show ?thesis unfolding ks
    by (auto simp add: distinct_map_filter dict_contains_def)
qed

lemma alert_location_expires:
  "alert_location float_of identifier fr k r = Inr f \<Longrightarrow> p_expires (f_properties f) = en_expires r"
  by (auto simp add: alert_location_def Let_def split: sum.splits)

lemma features_loop_expires:
  assumes "features_loop float_of identifier fr en acc = Inr data" and "f \<in> set data"
  shows "f \<in> set acc \<or> (\<exists>(k, r) \<in> set en. p_expires (f_properties f) = en_expires r)"
  using assms
proof (induction en arbitrary: acc)
  case Nil
  then show ?case by simp
next
  case (Cons kr en)
  obtain k r where kr: "kr = (k, r)" by (cases kr)
  from Cons.prems(1) obtain loc where
    loc: "alert_location float_of identifier fr k r = Inr loc" and
    rest: "features_loop float_of identifier fr en (acc @ [loc]) = Inr data"
    unfolding kr by (auto split: sum.splits)
  from Cons.IH [OF rest Cons.prems(2)] alert_location_expires [OF loc]
  show ?case unfolding kr by auto
qed

lemma loader_stages:
  assumes "weather_warning2geojson float_of basepath now filepath tree = Inr data"
  shows "\<exists>ident en0 fr0 ks en fr.
    expired_keys now en0 [] = Inr ks \<and>
    remove_keys ks en0 fr0 = Inr (en, fr) \<and>
    length fr = length en \<and>
    features_loop float_of ident fr en [] = Inr data"
  using assms
  apply (clarsimp simp add: weather_warning2geojson_def Let_def split: option.splits sum.splits if_splits prod.splits)
  apply (intro exI conjI)
     apply assumption+
  done

lemma emitted_not_expired:
  assumes w: "weather_warning2geojson float_of basepath now filepath tree = Inr data"
    and fd: "f \<in> set data"
  shows "\<exists>d. get_date_format (Some (p_expires (f_properties f))) = Inr d \<and> dt_le now d"
proof -
  from loader_stages [OF w]
  obtain ident en0 fr0 ks en fr where
    k: "expired_keys now en0 [] = Inr ks" and
    rm: "remove_keys ks en0 fr0 = Inr (en, fr)" and
    fl: "features_loop float_of ident fr en [] = Inr data"
    by blast
  from features_loop_expires [OF fl fd] obtain k' r' where
    m: "(k', r') \<in> set en" and e: "p_expires (f_properties f) = en_expires r'"
    by (auto split: prod.splits)
  from remove_keys_filter [OF rm] m have
    m0: "(k', r') \<in> set en0" and nk: "k' \<notin> set ks"
    by auto
  from expired_keys_eq [OF k] m0 obtain d where
    d: "get_date_format (Some (en_expires r')) = Inr d"
    by blast
  from expired_keys_eq [OF k] m0 nk have "\<not> is_expired now r'"
    by force
  with d have "\<not> dt_less d now" by (simp add: is_expired_def)
  then have "dt_le now d" by (simp add: dt_le_iff)
  with d e show ?thesis by auto
qed

lemma expired_removed_from_both:
  assumes k: "expired_keys now en0 [] = Inr ks0"
    and rm: "remove_keys ks0 en0 fr0 = Inr (en1, fr1)"
    and m: "(j, r) \<in> set en0"
    and d: "get_date_format (Some (en_expires r)) = Inr d0" and l: "dt_less d0 now"
  shows "\<not> dict_contains j en1 \<and> \<not> dict_contains j fr1"
proof -
  from d l have "is_expired now r" by (simp add: is_expired_def)
  with expired_keys_eq [OF k] m have "j \<in> set ks0" by force
  with remove_keys_filter [OF rm] show ?thesis
    by (auto simp add: dict_contains_def)
qed

lemma removal_succeeds_iff:
  assumes k: "expired_keys now en0 [] = Inr ks0" and dist: "distinct (map fst en0)"
  shows "(\<exists>en1 fr1. remove_keys ks0 en0 fr0 = Inr (en1, fr1)) = (\<forall>k \<in> set ks0. dict_contains k fr0)"
proof
  assume "\<exists>en1 fr1. remove_keys ks0 en0 fr0 = Inr (en1, fr1)"
  then show "\<forall>k \<in> set ks0. dict_contains k fr0"
    using remove_keys_filter by blast
next
  assume a: "\<forall>k \<in> set ks0. dict_contains k fr0"
  from expired_keys_distinct [OF k dist] a
  show "\<exists>en1 fr1. remove_keys ks0 en0 fr0 = Inr (en1, fr1)"
    by (intro remove_keys_total) auto
qed

text \<open>
  Claim C4.  For every feature the loader emits, the date normalizer parses its
  \<^verbatim>\<open>expires\<close> property to an instant that is not before the processing time \<open>now\<close>;
  and a key whose record has expired (its expiry instant is strictly before \<open>now\<close>) is in
  neither dictionary once the removal loop has run.  The removal loop runs to its end
  exactly when the French dictionary holds every expired key; otherwise
  \<^verbatim>\<open>del french_alert[key]\<close> raises KeyError.
\<close>

theorem no_expired_feature:
  "(weather_warning2geojson float_of basepath now filepath tree = Inr data \<and> f \<in> set data \<longrightarrow>
      (\<exists>d. get_date_format (Some (p_expires (f_properties f))) = Inr d \<and> dt_le now d)) \<and>
   (expired_keys now en0 [] = Inr ks0 \<and> remove_keys ks0 en0 fr0 = Inr (en1, fr1) \<and>
    (j, r) \<in> set en0 \<and> get_date_format (Some (en_expires r)) = Inr d0 \<and> dt_less d0 now \<longrightarrow>
      \<not> dict_contains j en1 \<and> \<not> dict_contains j fr1) \<and>
   (expired_keys now en0 [] = Inr ks0 \<and> distinct (map fst en0) \<longrightarrow>
      ((\<exists>en1 fr1. remove_keys ks0 en0 fr0 = Inr (en1, fr1)) = (\<forall>k \<in> set ks0. dict_contains k fr0)) \<and>
      (\<forall>e. remove_keys ks0 en0 fr0 = Inl e \<longrightarrow> e = KeyError))"
  using emitted_not_expired [of float_of basepath now filepath tree data f]
    expired_removed_from_both [of now en0 ks0 fr0 en1 fr1 j r d0]
    removal_succeeds_iff [of now en0 ks0 fr0]
    remove_keys_Inl [of ks0 en0 fr0]
  by blast


theorem no_expired_feature_witness:
  "weather_warning2geojson decimal_float ''/data'' now1 ''/data/amqp/alerts/cap/x.cap''
     (Some doc_scenario) =
     Inr [scenario_feature [[- (751 / 10), 451 / 10, 0], [- 75, 451 / 10, 0], [- 75, 45, 0], [- 75, 45, 0]]] \<and>
   get_date_format (Some ''2030-01-02T03:04:05Z'') = Inr expires1 \<and> dt_le now1 expires1 \<and>
   expired_keys now1 en_two [] = Inr [''a-1''] \<and>
   remove_keys [''a-1''] en_two fr_two =
     Inr ([(''a-2'', en_rec ''a-2'' ''2030-01-02T03:04:05Z'')], [(''a-2'', fr_rec ''a-2'')]) \<and>
   \<not> dict_contains ''a-1'' [(''a-2'', en_rec ''a-2'' ''2030-01-02T03:04:05Z'')] \<and>
   \<not> dict_contains ''a-1'' [(''a-2'', fr_rec ''a-2'')] \<and>
   remove_keys [''a-1''] en_two [(''a-2'', fr_rec ''a-2'')] = Inl KeyError"
proof -
  let ?ring = "[[- (751 / 10), 451 / 10, 0], [- 75, 451 / 10, 0], [- 75, 45, 0], [- 75, 45, 0 :: rat]]"
  let ?old = "\<lparr>year = 2020, month = 1, day = 2, hour = 3, minute = 4, second = 5, microsecond = 0\<rparr>"
  have w: "weather_warning2geojson decimal_float ''/data'' now1 ''/data/amqp/alerts/cap/x.cap''
             (Some doc_scenario) = Inr [scenario_feature ?ring]"
    by (rule scenario_eval [OF dt_less_asym [OF now1_before_expires1]])
  have p: "p_expires (f_properties (scenario_feature ?ring)) = ''2030-01-02T03:04:05Z''"
    by (simp add: scenario_feature_def)
  have g: "get_date_format (Some ''2030-01-02T03:04:05Z'') = Inr expires1"
    by (simp add: date_eval expires1_def)
  have o: "get_date_format (Some (en_expires (en_rec ''a-1'' ''2020-01-02T03:04:05Z''))) = Inr ?old"
    by (simp add: date_eval en_rec_def)
  have n: "get_date_format (Some (en_expires (en_rec ''a-2'' ''2030-01-02T03:04:05Z''))) = Inr expires1"
    by (simp add: date_eval en_rec_def expires1_def)
  have l: "dt_less ?old now1" "\<not> dt_less expires1 now1"
    by (simp_all add: dt_less_def dt_key_def now1_def expires1_def)
  have k: "expired_keys now1 en_two [] = Inr [''a-1'']"
    by (simp add: en_two_def en_rec_def date_eval dt_less_def dt_key_def now1_def)
  have rm: "remove_keys [''a-1''] en_two fr_two =
          Inr ([(''a-2'', en_rec ''a-2'' ''2030-01-02T03:04:05Z'')], [(''a-2'', fr_rec ''a-2'')])"
    by (simp add: en_two_def fr_two_def dict_del_def dict_contains_def)
  have m: "(''a-1'', en_rec ''a-1'' ''2020-01-02T03:04:05Z'') \<in> set en_two"
    by (simp add: en_two_def)
  have ds: "distinct (map fst en_two)"
    by (simp add: en_two_def)
  note t1 = no_expired_feature [where float_of = decimal_float and basepath = "''/data''"
      and now = now1 and filepath = "''/data/amqp/alerts/cap/x.cap''" and tree = "Some doc_scenario"
      and data = "[scenario_feature ?ring]" and f = "scenario_feature ?ring"
      and ?en0.0 = en_two and ?ks0.0 = "[''a-1'']" and ?fr0.0 = fr_two
      and ?en1.0 = "[(''a-2'', en_rec ''a-2'' ''2030-01-02T03:04:05Z'')]"
      and ?fr1.0 = "[(''a-2'', fr_rec ''a-2'')]" and j = "''a-1''"
      and r = "en_rec ''a-1'' ''2020-01-02T03:04:05Z''" and ?d0.0 = ?old]
  from t1 w have "\<exists>d. get_date_format (Some (p_expires (f_properties (scenario_feature ?ring)))) = Inr d \<and>
                      dt_le now1 d"
    by simp
  then have c1: "dt_le now1 expires1" unfolding p g by simp
  from t1 k rm m o l(1) have c2:
    "\<not> dict_contains ''a-1'' [(''a-2'', en_rec ''a-2'' ''2030-01-02T03:04:05Z'')] \<and>
     \<not> dict_contains ''a-1'' [(''a-2'', fr_rec ''a-2'')]"
    by blast
  note t2 = no_expired_feature [where now = now1 and ?en0.0 = en_two and ?ks0.0 = "[''a-1'']"
      and ?fr0.0 = "[(''a-2'', fr_rec ''a-2'')]"]
  have nc: "\<not> (\<forall>k \<in> set [''a-1'']. dict_contains k [(''a-2'', fr_rec ''a-2'')])"
    by (simp add: dict_contains_def)
  from t2 k ds nc have c3: "remove_keys [''a-1''] en_two [(''a-2'', fr_rec ''a-2'')] = Inl KeyError"
    by (metis old.sum.exhaust surj_pair)
  from w g c1 k rm c2 c3 show ?thesis by simp
qed

subsection \<open>The loop over the \<^verbatim>\<open>info\<close> blocks\<close>

lemma map_of_insert_new:
  "map_of (insert_new d kv) k =
     (case map_of d k of Some r \<Rightarrow> Some r | None \<Rightarrow> if fst kv = k then Some (snd kv) else None)"
  by (cases kv)
     (auto simp add: insert_new_def dict_contains_def map_of_eq_None_iff [symmetric] map_add_def
           split: option.splits)

lemma map_of_foldl_insert_new:
  "map_of (foldl insert_new d occs) k =
     (case map_of d k of Some r \<Rightarrow> Some r | None \<Rightarrow> first_occurrence k occs)"
proof (induction occs arbitrary: d)
  case Nil
  then show ?case by (simp add: first_occurrence_def split: option.split)
next
  case (Cons kv occs)
  show ?case
    by (simp add: Cons.IH map_of_insert_new first_occurrence_def split: option.split)
qed

lemma distinct_insert_new:
  "distinct (map fst d) \<Longrightarrow> distinct (map fst (insert_new d kv))"
  by (simp add: insert_new_def dict_contains_def)

lemma distinct_foldl_insert_new:
  "distinct (map fst d) \<Longrightarrow> distinct (map fst (foldl insert_new d occs))"
  by (induction occs arbitrary: d) (simp_all add: distinct_insert_new)

lemma french_areas_eq:
  assumes "french_areas headline descript fr areas = Inr fr'"
    and "value_of (get_element g [cap ''headline''] None) = headline"
    and "text_of (descript_of g) = descript"
  shows "fr' = foldl insert_new fr (concat (map (french_entry g) areas))"
  using assms(1)
proof (induction areas arbitrary: fr)
  case Nil
  then show ?case by simp
next
  case (Cons i areas)
  from Cons.prems obtain tag name where
    t: "get_element i [cap ''polygon''] None = Inr (Some tag)" and
    n: "get_element i [cap ''areaDesc''] None = Inr name" and
    rest: "french_areas headline descript
             (if \<not> dict_contains (id_warning_of tag) fr
              then fr @ [(id_warning_of tag, \<lparr>fr_id_warning = id_warning_of tag, fr_name = name,
                                           fr_headline = headline, fr_descript = descript\<rparr>)]
              else fr) areas = Inr fr'"
    by (auto simp add: Let_def split: sum.splits option.splits)
  have e: "french_entry g i =
             [(id_warning_of tag, \<lparr>fr_id_warning = id_warning_of tag, fr_name = name,
                                   fr_headline = headline, fr_descript = descript\<rparr>)]"
    using assms(2,3) by (simp add: french_entry_def t n value_of_def)
  from Cons.IH [OF rest] show ?case
    by (simp add: e insert_new_def)
qed

lemma english_areas_eq:
  assumes "english_areas headline descript effective expires warning status_alert url en areas = Inr en'"
    and "value_of (get_element g [cap ''headline''] None) = headline"
    and "text_of (descript_of g) = descript"
    and "block_date g ''effective'' = effective"
    and "block_date g ''expires'' = expires"
    and "value_of (get_element g [(base_xml @ ''parameter'', Some (Index 1)), cap ''value''] None) = warning"
    and "value_of (get_element g [(base_xml @ ''parameter'', Some (Last_minus 4)), cap ''value''] None) = status_alert"
  shows "en' = foldl insert_new en (concat (map (english_entry url g) areas))"
  using assms(1)
proof (induction areas arbitrary: en)
  case Nil
  then show ?case by simp
next
  case (Cons i areas)
  let ?r = "\<lambda>tag name. \<lparr>en_split_tag = split_tag_of tag, en_name = name, en_headline = headline,
                          en_effective = effective, en_expires = expires,
                          en_warning = warning, en_status_alert = status_alert,
                          en_id_warning = id_warning_of tag, en_descript = descript,
                          en_url = url\<rparr>"
  from Cons.prems obtain tag name where
    t: "get_element i [cap ''polygon''] None = Inr (Some tag)" and
    n: "get_element i [cap ''areaDesc''] None = Inr name" and
    rest: "english_areas headline descript effective expires warning status_alert url
             (if \<not> dict_contains (id_warning_of tag) en
              then en @ [(id_warning_of tag, ?r tag name)]
              else en) areas = Inr en'"
    by (auto simp add: Let_def split: sum.splits option.splits)
  have e: "english_entry url g i = [(id_warning_of tag, ?r tag name)]"
    using assms(2-7) by (simp add: english_entry_def t n value_of_def)
  from Cons.IH [OF rest] show ?case
    by (simp add: e insert_new_def)
qed

lemma french_info_eq:
  assumes "french_info st g = Inr st'"
  shows "st' = st\<lparr>french_alert := foldl insert_new (french_alert st) (french_block g)\<rparr>"
proof -
  from assms obtain headline descript fr where
    h: "get_element g [cap ''headline''] None = Inr headline" and
    d: "descript_of g = Inr descript" and
    a: "french_areas headline descript (french_alert st) (iter_tag (base_xml @ ''area'') g) = Inr fr" and
    s: "st' = st\<lparr>french_alert := fr\<rparr>"
    by (auto simp add: french_info_def split: sum.splits)
  from french_areas_eq [OF a, of g] h d show ?thesis
    unfolding s by (simp add: french_block_def value_of_def text_of_def)
qed

lemma english_info_eq:
  assumes "english_info url expires status_alert st g = Inr st'"
    and "block_date g ''expires'' = expires"
    and "value_of (get_element g [(base_xml @ ''parameter'', Some (Last_minus 4)), cap ''value''] None) = status_alert"
  shows "st' = st\<lparr>english_alert := foldl insert_new (english_alert st) (english_block url g)\<rparr>"
proof -
  from assms(1) obtain headline descript effective_dt warning en where
    h: "get_element g [cap ''headline''] None = Inr headline" and
    d: "descript_of g = Inr descript" and
    ef: "date_of g [cap ''effective''] = Inr effective_dt" and
    w: "get_element g [(base_xml @ ''parameter'', Some (Index 1)), cap ''value''] None = Inr warning" and
    a: "english_areas headline descript (strftime effective_dt) expires warning status_alert url
          (english_alert st) (iter_tag (base_xml @ ''area'') g) = Inr en" and
    s: "st' = st\<lparr>english_alert := en\<rparr>"
    by (auto simp add: english_info_def Let_def split: sum.splits)
  have "english_alert st' = en" unfolding s by simp
  moreover have "en = foldl insert_new (english_alert st) (english_block url g)"
    unfolding english_block_def
  proof (rule english_areas_eq [OF a])
    show "value_of (get_element g [cap ''headline''] None) = headline" by (simp add: value_of_def h)
    show "text_of (descript_of g) = descript" by (simp add: text_of_def d)
    show "block_date g ''effective'' = strftime effective_dt" by (simp add: block_date_def ef)
    show "block_date g ''expires'' = expires" by (rule assms(2))
    show "value_of (get_element g [(base_xml @ ''parameter'', Some (Index 1)), cap ''value''] None) = warning"
      by (simp only: value_of_def w sum.case)
    show "value_of (get_element g [(base_xml @ ''parameter'', Some (Last_minus 4)), cap ''value''] None) = status_alert"
      by (rule assms(3))
  qed
  ultimately show ?thesis unfolding s by simp
qed

lemma info_step_eq:
  assumes "info_step now url identifier lastref st g = Inr st'"
  shows "st' =
     (if eligible now identifier (list_id st) g
      then (if block_language g = Some ''fr-CA''
            then st\<lparr>list_id := list_id st @ [lastref],
                    french_alert := foldl insert_new (french_alert st) (french_block g)\<rparr>
            else st\<lparr>list_id := list_id st @ [lastref],
                    english_alert := foldl insert_new (english_alert st) (english_block url g)\<rparr>)
      else st)"
proof -
  from assms [unfolded info_step_def Let_def] obtain expires_dt status_alert expires_again where
    e: "date_of g [cap ''expires''] = Inr expires_dt" and
    sa: "get_element g [(base_xml @ ''parameter'', Some (Last_minus 4)), cap ''value''] None = Inr status_alert" and
    ea: "get_date_format (Some (strftime expires_dt)) = Inr expires_again" and
    r: "(if dt_less now expires_again \<or> not_in_list identifier (list_id st) then
            (case get_element g [cap ''language''] None of
               Inl e \<Rightarrow> Inl e
             | Inr language \<Rightarrow>
                 if language = Some ''fr-CA''
                 then french_info (st\<lparr>list_id := list_id st @ [lastref]\<rparr>) g
                 else english_info url (strftime expires_dt) status_alert
                        (st\<lparr>list_id := list_id st @ [lastref]\<rparr>) g)
         else Inr st) = Inr st'"
    by (auto split: sum.splits)
  have bd: "block_date g ''expires'' = strftime expires_dt"
    by (simp add: block_date_def e)
  have el: "eligible now identifier (list_id st) g =
              (dt_less now expires_again \<or> not_in_list identifier (list_id st))"
    by (simp add: eligible_def bd ea)
  show ?thesis
  proof (cases "eligible now identifier (list_id st) g")
    case False
    with r el show ?thesis by simp
  next
    case True
    with r el obtain language where
      l: "get_element g [cap ''language''] None = Inr language" and
      r': "(if language = Some ''fr-CA''
            then french_info (st\<lparr>list_id := list_id st @ [lastref]\<rparr>) g
            else english_info url (strftime expires_dt) status_alert
                   (st\<lparr>list_id := list_id st @ [lastref]\<rparr>) g) = Inr st'"
      by (auto split: sum.splits)
    have bl: "block_language g = language" by (simp add: block_language_def value_of_def l)
    show ?thesis
    proof (cases "language = Some ''fr-CA''")
      case fr: True
      with r' have "french_info (st\<lparr>list_id := list_id st @ [lastref]\<rparr>) g = Inr st'" by simp
      from french_info_eq [OF this] True fr bl show ?thesis by simp
    next
      case en: False
      with r' have a1: "english_info url (strftime expires_dt) status_alert
                   (st\<lparr>list_id := list_id st @ [lastref]\<rparr>) g = Inr st'" by simp
      have a3: "value_of (get_element g
          [(base_xml @ ''parameter'', Some (Last_minus 4)), cap ''value''] None) = status_alert"
        by (simp add: value_of_def sa)
      have "st' = (st\<lparr>list_id := list_id st @ [lastref]\<rparr>)
          \<lparr>english_alert := foldl insert_new
             (english_alert (st\<lparr>list_id := list_id st @ [lastref]\<rparr>)) (english_block url g)\<rparr>"
        by (rule english_info_eq [OF a1 bd a3])
      with True en bl show ?thesis by simp
    qed
  qed
qed

lemma info_loop_eq:
  assumes "info_loop now url identifier lastref st gs = Inr st'"
  shows "english_alert st' =
           foldl insert_new (english_alert st)
             (english_occurrences now url identifier lastref (list_id st) gs) \<and>
         french_alert st' =
           foldl insert_new (french_alert st)
             (french_occurrences now identifier lastref (list_id st) gs)"
  using assms
proof (induction gs arbitrary: st)
  case Nil
  then show ?case by simp
next
  case (Cons g gs)
  from Cons.prems obtain st1 where
    s: "info_step now url identifier lastref st g = Inr st1" and
    rest: "info_loop now url identifier lastref st1 gs = Inr st'"
    by (auto split: sum.splits)
  from Cons.IH [OF rest] info_step_eq [OF s] show ?case
    by simp
qed

lemma step_first:
  "info_step now1 url1 (Some ''id-1'') ''t1'' st_empty info_first = Inr st_first"
  by (simp add: info_first_def st_empty_def st_first_def en_rec_def url1_def now1_def
        tree_eval date_eval loader_eval)

lemma step_later:
  "info_step now1 url1 (Some ''id-1'') ''t1'' st_first info_later =
     Inr (st_first\<lparr>list_id := [''t1'', ''t1'']\<rparr>)"
  by (simp add: info_later_def st_first_def en_rec_def url1_def now1_def
        tree_eval date_eval loader_eval)

lemma step_old:
  "info_step now1 url1 (Some ''t1'') ''t1'' st_first info_old = Inr st_first"
  by (simp add: info_old_def st_first_def en_rec_def url1_def now1_def
        tree_eval date_eval loader_eval)

lemma date_later:
  "date_of info_later [cap ''expires''] = Inr expires1"
  "date_of info_first [cap ''expires''] = Inr expires1"
  "get_date_format (Some (strftime expires1)) = Inr expires1"
  by (simp_all add: info_later_def info_first_def expires1_def tree_eval date_eval date_of_def)

lemma block_first:
  "english_block url1 info_first = [(''a-450750'', en_rec ''a-450750'' ''2030-01-02T03:04:05Z'')]"
  by (simp add: english_block_def english_entry_def value_of_def text_of_def block_date_def
        info_first_def en_rec_def url1_def tree_eval date_eval date_of_def descript_of_def
        id_warning_of_def split_tag_of_def strip_def is_space_def)

lemma info_step_dates:
  assumes "info_step now url identifier lastref st g = Inr st'"
  shows "\<exists>e e'. date_of g [cap ''expires''] = Inr e \<and>
           get_date_format (Some (strftime e)) = Inr e' \<and>
           eligible now identifier (list_id st) g =
             (dt_less now e' \<or> not_in_list identifier (list_id st))"
proof -
  from assms [unfolded info_step_def Let_def] obtain e e' where
    e: "date_of g [cap ''expires''] = Inr e" and
    ea: "get_date_format (Some (strftime e)) = Inr e'"
    by (auto split: sum.splits)
  have "block_date g ''expires'' = strftime e" by (simp add: block_date_def e)
  then have "eligible now identifier (list_id st) g =
               (dt_less now e' \<or> not_in_list identifier (list_id st))"
    by (simp add: eligible_def ea)
  with e ea show ?thesis by blast
qed

lemma block_language_fr:
  "(block_language g = Some ''fr-CA'') = (get_element g [cap ''language''] None = Inr (Some ''fr-CA''))"
  by (simp add: block_language_def value_of_def split: sum.split)

text \<open>
  Claim C3, as stated: a block contributes records to the dictionaries if and only if it
  is eligible.  After the block \<open>info_first\<close>, the block \<open>info_later\<close> is eligible on both
  counts (its expiry is after \<open>now1\<close>, and the identifier is not in \<^verbatim>\<open>list_id\<close>, which
  holds the last reference); its only area has the key the first block stored, so the
  step leaves both dictionaries as they were.
\<close>

theorem eligible_block_adds_no_record:
  "info_step now1 url1 (Some ''id-1'') ''t1'' st_empty info_first = Inr st_first \<and>
   date_of info_later [cap ''expires''] = Inr expires1 \<and>
   get_date_format (Some (strftime expires1)) = Inr expires1 \<and>
   dt_less now1 expires1 \<and>
   not_in_list (Some ''id-1'') (list_id st_first) \<and>
   info_step now1 url1 (Some ''id-1'') ''t1'' st_first info_later =
     Inr (st_first\<lparr>list_id := [''t1'', ''t1'']\<rparr>) \<and>
   english_alert (st_first\<lparr>list_id := [''t1'', ''t1'']\<rparr>) = english_alert st_first \<and>
   french_alert (st_first\<lparr>list_id := [''t1'', ''t1'']\<rparr>) = french_alert st_first"
  by (simp add: step_first step_later date_later now1_before_expires1)
     (simp add: not_in_list_def st_first_def)

text \<open>
  Claim C3, amended.  A block is processed if and only if its expiry, parsed again from
  its formatted form, is strictly after \<open>now\<close> or the identifier is not in \<^verbatim>\<open>list_id\<close>
  when the block is examined.  A processed block appends the last reference to
  \<^verbatim>\<open>list_id\<close> and offers the record of each of its areas, in order, to the dictionary
  of its language, which takes it unless it holds the key already; the other dictionary
  is unchanged.  A block that is not processed changes nothing.
\<close>

theorem info_block_eligibility:
  "info_step now url identifier lastref st g = Inr st' \<longrightarrow>
     (\<exists>e e'. date_of g [cap ''expires''] = Inr e \<and>
        get_date_format (Some (strftime e)) = Inr e' \<and>
        (if dt_less now e' \<or> not_in_list identifier (list_id st)
         then list_id st' = list_id st @ [lastref] \<and>
              (if get_element g [cap ''language''] None = Inr (Some ''fr-CA'')
               then french_alert st' = foldl insert_new (french_alert st) (french_block g) \<and>
                    english_alert st' = english_alert st
               else english_alert st' = foldl insert_new (english_alert st) (english_block url g) \<and>
                    french_alert st' = french_alert st)
         else st' = st))"
proof
  assume a: "info_step now url identifier lastref st g = Inr st'"
  from info_step_dates [OF a] obtain e e' where
    e: "date_of g [cap ''expires''] = Inr e" and
    ea: "get_date_format (Some (strftime e)) = Inr e'" and
    el: "eligible now identifier (list_id st) g =
           (dt_less now e' \<or> not_in_list identifier (list_id st))"
    by blast
  from info_step_eq [OF a] el
  have "if dt_less now e' \<or> not_in_list identifier (list_id st)
         then list_id st' = list_id st @ [lastref] \<and>
              (if get_element g [cap ''language''] None = Inr (Some ''fr-CA'')
               then french_alert st' = foldl insert_new (french_alert st) (french_block g) \<and>
                    english_alert st' = english_alert st
               else english_alert st' = foldl insert_new (english_alert st) (english_block url g) \<and>
                    french_alert st' = french_alert st)
         else st' = st"
    by (simp add: block_language_fr split: if_splits)
  with e ea show "\<exists>e e'. date_of g [cap ''expires''] = Inr e \<and>
        get_date_format (Some (strftime e)) = Inr e' \<and>
        (if dt_less now e' \<or> not_in_list identifier (list_id st)
         then list_id st' = list_id st @ [lastref] \<and>
              (if get_element g [cap ''language''] None = Inr (Some ''fr-CA'')
               then french_alert st' = foldl insert_new (french_alert st) (french_block g) \<and>
                    english_alert st' = english_alert st
               else english_alert st' = foldl insert_new (english_alert st) (english_block url g) \<and>
                    french_alert st' = french_alert st)
         else st' = st)"
    by blast
qed

theorem info_block_eligibility_witness:
  "info_step now1 url1 (Some ''id-1'') ''t1'' st_empty info_first = Inr st_first \<and>
   dt_less now1 expires1 \<and>
   list_id st_first = list_id st_empty @ [''t1''] \<and>
   english_alert st_first = foldl insert_new (english_alert st_empty) (english_block url1 info_first) \<and>
   english_block url1 info_first = [(''a-450750'', en_rec ''a-450750'' ''2030-01-02T03:04:05Z'')] \<and>
   french_alert st_first = french_alert st_empty \<and>
   date_of info_old [cap ''expires''] =
     Inr \<lparr>year = 2020, month = 1, day = 2, hour = 3, minute = 4, second = 5, microsecond = 0\<rparr> \<and>
   \<not> dt_less now1
     \<lparr>year = 2020, month = 1, day = 2, hour = 3, minute = 4, second = 5, microsecond = 0\<rparr> \<and>
   \<not> not_in_list (Some ''t1'') (list_id st_first) \<and>
   info_step now1 url1 (Some ''t1'') ''t1'' st_first info_old = Inr st_first"
proof -
  have old: "date_of info_old [cap ''expires''] =
      Inr \<lparr>year = 2020, month = 1, day = 2, hour = 3, minute = 4, second = 5, microsecond = 0\<rparr> \<and>
    \<not> dt_less now1
      \<lparr>year = 2020, month = 1, day = 2, hour = 3, minute = 4, second = 5, microsecond = 0\<rparr> \<and>
    \<not> not_in_list (Some ''t1'') (list_id st_first)"
    by (simp add: info_old_def tree_eval date_eval date_of_def dt_less_def dt_key_def now1_def
          not_in_list_def st_first_def)
  have l: "get_element info_first [cap ''language''] None \<noteq> Inr (Some ''fr-CA'')"
    by (simp add: info_first_def tree_eval)
  from info_block_eligibility [of now1 url1 "Some ''id-1''" "''t1''" st_empty info_first st_first]
    step_first
  obtain e e' where
    "date_of info_first [cap ''expires''] = Inr e" and
    "get_date_format (Some (strftime e)) = Inr e'" and
    c: "if dt_less now1 e' \<or> not_in_list (Some ''id-1'') (list_id st_empty)
         then list_id st_first = list_id st_empty @ [''t1''] \<and>
              (if get_element info_first [cap ''language''] None = Inr (Some ''fr-CA'')
               then french_alert st_first = foldl insert_new (french_alert st_empty) (french_block info_first) \<and>
                    english_alert st_first = english_alert st_empty
               else english_alert st_first = foldl insert_new (english_alert st_empty) (english_block url1 info_first) \<and>
                    french_alert st_first = french_alert st_empty)
         else st_first = st_empty"
    by blast
  then have "e = expires1" "e' = expires1" by (simp_all add: date_later)
  with c l now1_before_expires1 have
    "list_id st_first = list_id st_empty @ [''t1''] \<and>
     english_alert st_first = foldl insert_new (english_alert st_empty) (english_block url1 info_first) \<and>
     french_alert st_first = french_alert st_empty"
    by simp
  with step_first now1_before_expires1 block_first step_old old show ?thesis by simp
qed

text \<open>
  Claim C6.  After the loop over the \<^verbatim>\<open>info\<close> blocks, each dictionary maps a key to
  the record it held before the loop, if any, and otherwise to the record built from
  the first occurrence of the key among the areas of the eligible blocks of its language,
  in document order; later occurrences change nothing.  Keys stay distinct.
\<close>

theorem first_occurrence_wins:
  "info_loop now url identifier lastref st infos = Inr st' \<longrightarrow>
     map_of (english_alert st') k =
       (case map_of (english_alert st) k of
          Some r \<Rightarrow> Some r
        | None \<Rightarrow> first_occurrence k
                    (english_occurrences now url identifier lastref (list_id st) infos)) \<and>
     map_of (french_alert st') k' =
       (case map_of (french_alert st) k' of
          Some r \<Rightarrow> Some r
        | None \<Rightarrow> first_occurrence k'
                    (french_occurrences now identifier lastref (list_id st) infos)) \<and>
     (distinct (map fst (english_alert st)) \<longrightarrow> distinct (map fst (english_alert st'))) \<and>
     (distinct (map fst (french_alert st)) \<longrightarrow> distinct (map fst (french_alert st')))"
proof
  assume a: "info_loop now url identifier lastref st infos = Inr st'"
  note eq = info_loop_eq [OF a]
  show "map_of (english_alert st') k =
       (case map_of (english_alert st) k of
          Some r \<Rightarrow> Some r
        | None \<Rightarrow> first_occurrence k
                    (english_occurrences now url identifier lastref (list_id st) infos)) \<and>
     map_of (french_alert st') k' =
       (case map_of (french_alert st) k' of
          Some r \<Rightarrow> Some r
        | None \<Rightarrow> first_occurrence k'
                    (french_occurrences now identifier lastref (list_id st) infos)) \<and>
     (distinct (map fst (english_alert st)) \<longrightarrow> distinct (map fst (english_alert st'))) \<and>
     (distinct (map fst (french_alert st)) \<longrightarrow> distinct (map fst (french_alert st')))"
    by (simp add: eq map_of_foldl_insert_new distinct_foldl_insert_new)
qed

lemma loop_two:
  "info_loop now1 url1 (Some ''id-1'') ''t1'' st_empty [info_first, info_later] =
     Inr (st_first\<lparr>list_id := [''t1'', ''t1'']\<rparr>)"
  by (simp add: step_first step_later)

lemma block_later:
  "english_block url1 info_later =
     [(''a-450750'',
       (en_rec ''a-450750'' ''2030-01-02T03:04:05Z'')
         \<lparr>en_name := Some ''Gatineau'', en_headline := Some ''later warning'',
          en_descript := ''later text''\<rparr>)]"
  by (simp add: english_block_def english_entry_def value_of_def text_of_def block_date_def
        info_later_def en_rec_def url1_def tree_eval date_eval date_of_def descript_of_def
        id_warning_of_def split_tag_of_def strip_def is_space_def)

lemma eligible_two:
  "eligible now1 (Some ''id-1'') [] info_first"
  "eligible now1 (Some ''id-1'') [''t1''] info_later"
  "block_language info_first = Some ''en-CA''" "block_language info_later = Some ''en-CA''"
  by (simp_all add: eligible_def block_date_def block_language_def value_of_def not_in_list_def
        info_first_def info_later_def tree_eval date_of_def date_eval)

theorem first_occurrence_wins_witness:
  "info_loop now1 url1 (Some ''id-1'') ''t1'' st_empty [info_first, info_later] =
     Inr (st_first\<lparr>list_id := [''t1'', ''t1'']\<rparr>) \<and>
   english_occurrences now1 url1 (Some ''id-1'') ''t1'' [] [info_first, info_later] =
     [(''a-450750'', en_rec ''a-450750'' ''2030-01-02T03:04:05Z''),
      (''a-450750'',
       (en_rec ''a-450750'' ''2030-01-02T03:04:05Z'')
         \<lparr>en_name := Some ''Gatineau'', en_headline := Some ''later warning'',
          en_descript := ''later text''\<rparr>)] \<and>
   map_of (english_alert (st_first\<lparr>list_id := [''t1'', ''t1'']\<rparr>)) ''a-450750'' =
     Some (en_rec ''a-450750'' ''2030-01-02T03:04:05Z'') \<and>
   distinct (map fst (english_alert (st_first\<lparr>list_id := [''t1'', ''t1'']\<rparr>)))"
proof -
  have o: "english_occurrences now1 url1 (Some ''id-1'') ''t1'' [] [info_first, info_later] =
     [(''a-450750'', en_rec ''a-450750'' ''2030-01-02T03:04:05Z''),
      (''a-450750'',
       (en_rec ''a-450750'' ''2030-01-02T03:04:05Z'')
         \<lparr>en_name := Some ''Gatineau'', en_headline := Some ''later warning'',
          en_descript := ''later text''\<rparr>)]"
    by (simp add: eligible_two block_first block_later)
  have e: "english_alert st_empty = []" "list_id st_empty = []" by (simp_all add: st_empty_def)
  from first_occurrence_wins [of now1 url1 "Some ''id-1''" "''t1''" st_empty
      "[info_first, info_later]" "st_first\<lparr>list_id := [''t1'', ''t1'']\<rparr>" "''a-450750''"]
    loop_two
  have "map_of (english_alert (st_first\<lparr>list_id := [''t1'', ''t1'']\<rparr>)) ''a-450750'' =
          first_occurrence ''a-450750''
            (english_occurrences now1 url1 (Some ''id-1'') ''t1'' [] [info_first, info_later]) \<and>
        distinct (map fst (english_alert (st_first\<lparr>list_id := [''t1'', ''t1'']\<rparr>)))"
    by (simp add: e)
  then show ?thesis
    unfolding o using loop_two by (simp add: first_occurrence_def)
qed

end
